(* ===== verification/Prelude.thy ===== *)
theory Prelude
  imports Complex_Main "HOL-Library.Word" "HOL-Library.Sublist"
begin

text \<open>
  Shared vocabulary of the development.  File contents are byte strings
  (\<open>8 word list\<close>), paths are Python strings (\<open>string\<close>), and every call that
  may raise a Python exception returns \<open>'a py\<close>: \<open>Inl m\<close> is the exception,
  \<open>m\<close> being the text \<open>str(e)\<close> that the handlers of \<^verbatim>\<open>src/main.py\<close> put into
  their HTTP error details, \<open>Inr v\<close> is the value returned.  \<open>py_bind\<close>
  sequences such calls the way consecutive Python statements inside one
  \<^verbatim>\<open>try\<close> block do: the first exception skips the rest.
\<close>

type_synonym bytes = "8 word list"
type_synonym path = string
type_synonym 'a py = "string + 'a"

named_theorems py_simps "evaluation rules of the Python helpers"

definition py_bind :: "'a py \<Rightarrow> ('a \<Rightarrow> 'b py) \<Rightarrow> 'b py" where
  "py_bind r f = (case r of Inl e \<Rightarrow> Inl e | Inr v \<Rightarrow> f v)"

text \<open>Python's true division \<open>a / b\<close> of two \<open>int\<close>s, read as a real number.\<close>

definition py_truediv :: "int \<Rightarrow> int \<Rightarrow> real py" where
  "py_truediv a b = (if b = 0 then Inl ''division by zero'' else Inr (real_of_int a / real_of_int b))"

lemma py_bind_Inl [simp, py_simps]: "py_bind (Inl e) f = Inl e"
  by (simp add: py_bind_def)

lemma py_bind_Inr [simp, py_simps]: "py_bind (Inr v) f = f v"
  by (simp add: py_bind_def)

lemma py_bind_eq_Inr_iff [py_simps]:
  "py_bind r f = Inr w \<longleftrightarrow> (\<exists>v. r = Inr v \<and> f v = Inr w)"
  by (cases r) auto

lemma py_bind_assoc [py_simps]:
  "py_bind (py_bind r f) g = py_bind r (\<lambda>v. py_bind (f v) g)"
  by (cases r) auto

lemma py_truediv_nonzero [simp, py_simps]:
  "b \<noteq> 0 \<Longrightarrow> py_truediv a b = Inr (real_of_int a / real_of_int b)"
  by (simp add: py_truediv_def)

lemma py_truediv_zero [simp, py_simps]: "py_truediv a 0 = Inl ''division by zero''"
  by (simp add: py_truediv_def)

subsection \<open>Lists and strings\<close>

text \<open>
  File names in this program are built by concatenating a fixed prefix, a
  per-request token and a suffix.  Two names of that shape are equal only
  when their parts are, once the tokens have equal length (every
  \<^verbatim>\<open>str(uuid.uuid4())\<close> has 36 characters).
\<close>

lemma append_same_length_cancel:
  assumes "length a = length b" and "a @ x = b @ y"
  shows "a = b \<and> x = y"
  using assms by (simp add: append_eq_append_conv)

end
