(* ===== verification/PyStr.thy ===== *)
theory PyStr
  imports Prelude
begin

text \<open>
  The Python built-ins that \<^verbatim>\<open>clone_voice\<close> (\<^verbatim>\<open>src/main.py\<close>) applies to its
  inputs: \<^verbatim>\<open>str.strip()\<close> (line 84), \<^verbatim>\<open>str.startswith\<close> (line 91),
  \<^verbatim>\<open>str.split('.')[-1]\<close> (line 97) and \<^verbatim>\<open>round(x, 2)\<close> (line 154).
  Characters are Isabelle \<open>char\<close>s read as Latin-1 code points 0..255; the
  whitespace set is the one of Python's \<^verbatim>\<open>str.isspace\<close> on that range.
  The lemmas give each helper its characterisation: \<open>strip\<close> is empty exactly
  on all-whitespace strings, \<open>split\<close> is undone by \<open>join\<close> and its last piece
  is the text after the last separator, and rounding to two decimals moves a
  value by at most half a hundredth.
\<close>

definition py_isspace :: "char \<Rightarrow> bool" where
  "py_isspace c \<longleftrightarrow>
     (of_char c :: nat) \<in> {9, 10, 11, 12, 13, 28, 29, 30, 31, 32, 133, 160}"

definition py_strip :: "string \<Rightarrow> string" where
  "py_strip s = rev (dropWhile py_isspace (rev (dropWhile py_isspace s)))"

definition py_startswith :: "string \<Rightarrow> string \<Rightarrow> bool" where
  "py_startswith s p \<longleftrightarrow> take (length p) s = p"

text \<open>\<^verbatim>\<open>s.split(sep)\<close> for a one-character separator: the pieces between
  the separators, always at least one.\<close>

fun py_split :: "char \<Rightarrow> string \<Rightarrow> string list" where
  "py_split sep [] = [[]]"
| "py_split sep (c # cs) =
     (let r = py_split sep cs in if c = sep then [] # r else (c # hd r) # tl r)"

text \<open>\<^verbatim>\<open>sep.join(parts)\<close>.\<close>

fun py_join :: "char \<Rightarrow> string list \<Rightarrow> string" where
  "py_join sep [] = []"
| "py_join sep [x] = x"
| "py_join sep (x # y # ys) = x @ sep # py_join sep (y # ys)"

text \<open>\<^verbatim>\<open>round(x, 2)\<close>: to the nearest hundredth, ties to the even neighbour.\<close>

definition round_half_even :: "real \<Rightarrow> int" where
  "round_half_even x =
     (let f = \<lfloor>x\<rfloor>; d = x - of_int f in
      if d < 1/2 then f else if 1/2 < d then f + 1 else if even f then f else f + 1)"

definition py_round2 :: "real \<Rightarrow> real" where
  "py_round2 x = of_int (round_half_even (x * 100)) / 100"

subsection \<open>strip\<close>

lemma dropWhile_eq_Nil_iff_list_all: "dropWhile P xs = [] \<longleftrightarrow> list_all P xs"
  by (induction xs) auto

lemma list_all_dropWhile_iff: "list_all P (dropWhile P xs) \<longleftrightarrow> list_all P xs"
  by (induction xs) auto

lemma py_strip_empty_iff: "py_strip s = [] \<longleftrightarrow> list_all py_isspace s"
  by (simp only: py_strip_def rev_is_Nil_conv dropWhile_eq_Nil_iff_list_all list_all_rev
      list_all_dropWhile_iff)

lemma py_startswith_prefix: "py_startswith s p \<longleftrightarrow> prefix p s"
  by (auto simp: py_startswith_def prefix_def) (metis append_take_drop_id)

subsection \<open>split and join\<close>

lemma py_split_not_Nil [simp]: "py_split sep s \<noteq> []"
  by (induction s) (auto simp: Let_def)

lemma py_join_split: "py_join sep (py_split sep s) = s"
proof (induction s)
  case Nil
  show ?case by simp
next
  case (Cons c cs)
  obtain r rs where r: "py_split sep cs = r # rs"
    using py_split_not_Nil by (metis list.exhaust)
  show ?case
  proof (cases "c = sep")
    case True
    with Cons.IH r show ?thesis by simp
  next
    case False
    with Cons.IH r show ?thesis by (cases rs) simp_all
  qed
qed

lemma py_split_no_sep: "piece \<in> set (py_split sep s) \<Longrightarrow> sep \<notin> set piece"
proof (induction s arbitrary: piece)
  case Nil
  then show ?case by simp
next
  case (Cons c cs)
  obtain r rs where r: "py_split sep cs = r # rs"
    using py_split_not_Nil by (metis list.exhaust)
  have "\<forall>p \<in> set (r # rs). sep \<notin> set p"
    using Cons.IH unfolding r by blast
  with Cons.prems r show ?case
    by (auto simp: Let_def split: if_splits)
qed

lemma py_split_no_sep_eq: "sep \<notin> set s \<Longrightarrow> py_split sep s = [s]"
  by (induction s) auto

lemma py_split_append_sep:
  "py_split sep (a @ sep # b) = py_split sep a @ py_split sep b"
proof (induction a)
  case Nil
  show ?case by simp
next
  case (Cons c a)
  obtain r rs where r: "py_split sep a = r # rs"
    using py_split_not_Nil by (metis list.exhaust)
  with Cons.IH show ?case by (simp add: Let_def)
qed

text \<open>The last piece, \<^verbatim>\<open>s.split(sep)[-1]\<close>, is what follows the last
  separator, or the whole string when there is none.\<close>

lemma last_py_split_decomp:
  assumes "sep \<in> set s"
  shows "\<exists>a. s = a @ sep # last (py_split sep s) \<and> sep \<notin> set (last (py_split sep s))"
proof -
  obtain a b where s: "s = a @ sep # b" and b: "sep \<notin> set b"
    using split_list_last [OF assms] by blast
  then have L: "last (py_split sep s) = b"
    by (simp add: py_split_append_sep py_split_no_sep_eq)
  have "s = a @ sep # last (py_split sep s)"
    unfolding L by (rule s)
  moreover have "sep \<notin> set (last (py_split sep s))"
    unfolding L by (rule b)
  ultimately show ?thesis by blast
qed

lemma last_py_split: "last (py_split sep s) = rev (takeWhile (\<lambda>c. c \<noteq> sep) (rev s))"
proof (cases "sep \<in> set s")
  case True
  then obtain a where s: "s = a @ sep # last (py_split sep s)"
    and nosep: "sep \<notin> set (last (py_split sep s))"
    using last_py_split_decomp by blast
  let ?b = "last (py_split sep s)"
  from nosep have "takeWhile (\<lambda>c. c \<noteq> sep) (rev ?b @ sep # rev a) = rev ?b"
    by (subst takeWhile_append2) auto
  then show ?thesis by (subst (2) s) simp
next
  case False
  then have T: "takeWhile (\<lambda>c. c \<noteq> sep) (rev s) = rev s"
    by auto
  from False have "last (py_split sep s) = s"
    by (simp add: py_split_no_sep_eq)
  then show ?thesis by (simp only: T rev_rev_ident)
qed

lemma last_py_split_suffix: "suffix (last (py_split sep s)) s"
proof (cases "sep \<in> set s")
  case True
  then obtain a where "s = a @ sep # last (py_split sep s)"
    using last_py_split_decomp by blast
  then show ?thesis by (metis suffix_appendI suffix_Cons suffix_order.refl)
next
  case False
  then show ?thesis by (simp add: py_split_no_sep_eq)
qed

subsection \<open>round\<close>

lemma round_half_even_close: "\<bar>of_int (round_half_even x) - x\<bar> \<le> 1/2"
proof -
  have "of_int \<lfloor>x\<rfloor> \<le> x" and "x < of_int \<lfloor>x\<rfloor> + 1"
    by linarith+
  then show ?thesis
    by (auto simp: round_half_even_def Let_def)
qed

lemma py_round2_close: "\<bar>py_round2 x - x\<bar> \<le> 1/200"
proof -
  have "\<bar>of_int (round_half_even (x * 100)) - x * 100\<bar> \<le> 1/2"
    by (rule round_half_even_close)
  then have "\<bar>of_int (round_half_even (x * 100)) / 100 - x\<bar> \<le> 1/200"
    by (simp add: abs_le_iff field_simps)
  then show ?thesis by (simp add: py_round2_def)
qed

end
