(* ===== verification/FileSystem.thy ===== *)
theory FileSystem
  imports PyStr
begin

text \<open>
  The part of the operating system that \<^verbatim>\<open>src/main.py\<close> uses: a flat store of
  files keyed by relative path, a set of directories, and whether the device
  is full (the environment fills and frees it), with the calls the handlers
  make: \<^verbatim>\<open>os.makedirs(d, exist_ok=True)\<close> (lines 47-48),
  \<^verbatim>\<open>os.path.exists\<close> (true for files and directories), \<^verbatim>\<open>os.remove\<close>,
  \<^verbatim>\<open>open(p, 'wb')\<close> (create or truncate; it fails on a NUL character, on a
  name or path too long for Linux, when a directory on the way is missing,
  or when the path is a directory: \<open>open_error\<close>), a write to the opened
  file (it fails on a full device), and reading a file back.  Failing calls
  return the message of the exception Python raises.  Permission errors are
  not modelled: the service owns its two directories.  The lemmas say what
  each call does and, for the paths of the program (a directory, a slash, a
  name), when \<open>open\<close> fails.
\<close>

record fs =
  files :: "path \<Rightarrow> bytes option"
  dirs :: "path set"
  disk_full :: bool

named_theorems fs_simps "effect of the file-system calls"

definition py_quote :: "string \<Rightarrow> string" where
  "py_quote s = CHR 0x27 # s @ [CHR 0x27]"

definition enoent :: "path \<Rightarrow> string" where
  "enoent p = ''[Errno 2] No such file or directory: '' @ py_quote p"

definition eisdir :: "path \<Rightarrow> string" where
  "eisdir p = ''[Errno 21] Is a directory: '' @ py_quote p"

definition eexist :: "path \<Rightarrow> string" where
  "eexist p = ''[Errno 17] File exists: '' @ py_quote p"

definition enametoolong :: "path \<Rightarrow> string" where
  "enametoolong p = ''[Errno 36] File name too long: '' @ py_quote p"

definition enospc :: string where
  "enospc = ''[Errno 28] No space left on device''"

text \<open>Python encodes a path with the file-system encoding UTF-8 before the
  system call: a Latin-1 character below 128 takes one byte, the others two.
  Linux refuses a name component longer than \<open>name_max\<close> bytes and a path of
  \<open>path_max\<close> bytes or more with \<^verbatim>\<open>ENAMETOOLONG\<close>.\<close>

definition utf8_length :: "string \<Rightarrow> nat" where
  "utf8_length s = sum_list (map (\<lambda>c. if of_char c < (128::nat) then 1 else 2) s)"

definition name_max :: nat where
  "name_max = 255"

definition path_max :: nat where
  "path_max = 4096"

definition os_path_exists :: "fs \<Rightarrow> path \<Rightarrow> bool" where
  "os_path_exists s p \<longleftrightarrow> files s p \<noteq> None \<or> p \<in> dirs s"

definition os_remove :: "fs \<Rightarrow> path \<Rightarrow> fs py" where
  "os_remove s p =
     (if files s p \<noteq> None then Inr (s\<lparr>files := (files s)(p := None)\<rparr>)
      else if p \<in> dirs s then Inl (eisdir p)
      else Inl (enoent p))"

text \<open>The kernel's walk along the directories of a path \<open>p\<close> (the components
  before its last slash, \<open>d\<close> being the part walked so far): a component that
  is too long, or one that is not a directory, stops the walk with its error.\<close>

fun walk_dirs :: "path set \<Rightarrow> path \<Rightarrow> path \<Rightarrow> string list \<Rightarrow> string option" where
  "walk_dirs D p d [] = None"
| "walk_dirs D p d (c # cs) =
     (let d' = (if d = [] then c else d @ CHR ''/'' # c) in
      if name_max < utf8_length c then Some (enametoolong p)
      else if d' \<notin> D then Some (enoent p)
      else walk_dirs D p d' cs)"

text \<open>Why \<^verbatim>\<open>open(p, 'wb')\<close> fails on a file system with directories \<open>D\<close>, in
  the order the checks happen: Python refuses a NUL character
  (\<^verbatim>\<open>ValueError\<close>), the kernel a path too long, then walks the
  directories, then checks the last component and that it is not a
  directory.\<close>

definition open_error :: "path set \<Rightarrow> path \<Rightarrow> string option" where
  "open_error D p =
     (if CHR 0x00 \<in> set p then Some ''embedded null byte''
      else if path_max \<le> utf8_length p then Some (enametoolong p)
      else case walk_dirs D p [] (butlast (py_split CHR ''/'' p)) of
             Some e \<Rightarrow> Some e
           | None \<Rightarrow>
               if name_max < utf8_length (last (py_split CHR ''/'' p)) then Some (enametoolong p)
               else if p \<in> D then Some (eisdir p)
               else None)"

definition open_wb :: "fs \<Rightarrow> path \<Rightarrow> fs py" where
  "open_wb s p =
     (case open_error (dirs s) p of
        Some e \<Rightarrow> Inl e
      | None \<Rightarrow> Inr (s\<lparr>files := (files s)(p \<mapsto> [])\<rparr>))"

text \<open>A write through a handle opened on \<open>p\<close>.  On a full device writing
  data raises \<^verbatim>\<open>OSError\<close> \<^verbatim>\<open>ENOSPC\<close> and the file keeps what it had; if the
  file has been unlinked meanwhile, the bytes go to the orphaned inode and no
  path shows them.\<close>

definition write_file :: "fs \<Rightarrow> path \<Rightarrow> bytes \<Rightarrow> fs py" where
  "write_file s p b =
     (if disk_full s \<and> b \<noteq> [] then Inl enospc
      else if files s p \<noteq> None then Inr (s\<lparr>files := (files s)(p \<mapsto> b)\<rparr>)
      else Inr s)"

definition read_file :: "fs \<Rightarrow> path \<Rightarrow> bytes py" where
  "read_file s p =
     (case files s p of
        Some b \<Rightarrow> Inr b
      | None \<Rightarrow> Inl (if p \<in> dirs s then eisdir p else enoent p))"

text \<open>\<^verbatim>\<open>os.makedirs(d, exist_ok=True)\<close> for a one-component \<open>d\<close>: an existing
  directory is fine, an existing file raises \<^verbatim>\<open>FileExistsError\<close>, and
  creating a directory on a full device raises \<^verbatim>\<open>ENOSPC\<close>.\<close>

definition makedirs_exist_ok :: "fs \<Rightarrow> path \<Rightarrow> fs py" where
  "makedirs_exist_ok s d =
     (if d \<in> dirs s then Inr s
      else if files s d \<noteq> None then Inl (eexist d)
      else if disk_full s then Inl enospc
      else Inr (s\<lparr>dirs := insert d (dirs s)\<rparr>))"

subsection \<open>Effects of the calls\<close>

lemma os_remove_Inr [fs_simps]:
  "os_remove s p = Inr s' \<longleftrightarrow> files s p \<noteq> None \<and> s' = s\<lparr>files := (files s)(p := None)\<rparr>"
  by (auto simp: os_remove_def)

lemma open_wb_Inr [fs_simps]:
  "open_wb s p = Inr s' \<longleftrightarrow> open_error (dirs s) p = None \<and> s' = s\<lparr>files := (files s)(p \<mapsto> [])\<rparr>"
  by (auto simp: open_wb_def split: option.splits)

lemma open_wb_Inl [fs_simps]: "open_wb s p = Inl e \<longleftrightarrow> open_error (dirs s) p = Some e"
  by (auto simp: open_wb_def split: option.splits)

lemma os_remove_Inl_unchanged: "os_remove s p = Inl e \<Longrightarrow> files s p = None"
  by (auto simp: os_remove_def split: if_splits)

lemma write_file_Inr [fs_simps]:
  "write_file s p b = Inr s' \<longleftrightarrow>
     (\<not> disk_full s \<or> b = []) \<and>
     s' = (if files s p \<noteq> None then s\<lparr>files := (files s)(p \<mapsto> b)\<rparr> else s)"
  by (auto simp: write_file_def)

lemma write_file_Inl [fs_simps]:
  "write_file s p b = Inl e \<longleftrightarrow> disk_full s \<and> b \<noteq> [] \<and> e = enospc"
  by (auto simp: write_file_def)

lemma write_file_opened:
  "files s p \<noteq> None \<Longrightarrow> \<not> disk_full s \<or> b = [] \<Longrightarrow>
     write_file s p b = Inr (s\<lparr>files := (files s)(p \<mapsto> b)\<rparr>)"
  by (simp add: write_file_def)

lemma read_file_Inr [fs_simps]: "read_file s p = Inr b \<longleftrightarrow> files s p = Some b"
  by (auto simp: read_file_def split: option.splits)

lemma write_then_read: "files s p \<noteq> None \<Longrightarrow> write_file s p b = Inr s' \<Longrightarrow> read_file s' p = Inr b"
  by (auto simp: read_file_def write_file_Inr)

lemma os_remove_then_exists:
  "os_remove s p = Inr s' \<Longrightarrow> os_path_exists s' p \<longleftrightarrow> p \<in> dirs s"
  by (auto simp: os_remove_Inr os_path_exists_def)

subsection \<open>Opening a file in a directory\<close>

lemma utf8_length_append [simp]: "utf8_length (a @ b) = utf8_length a + utf8_length b"
  by (simp add: utf8_length_def)

lemma utf8_length_Cons [simp]:
  "utf8_length (c # s) = (if of_char c < (128::nat) then 1 else 2) + utf8_length s"
  by (simp add: utf8_length_def)

lemma utf8_length_Nil [simp]: "utf8_length [] = 0"
  by (simp add: utf8_length_def)

lemma py_split_sep_first:
  "sep \<notin> set a \<Longrightarrow> py_split sep (a @ sep # b) = a # py_split sep b"
  by (simp add: py_split_append_sep py_split_no_sep_eq)

text \<open>The paths of the program are a one-component directory, a slash and
  the rest; when the rest has no slash, this is what \<open>open\<close> does.\<close>

lemma open_error_in_dir:
  assumes "CHR ''/'' \<notin> set d" and "d \<noteq> []" and "CHR ''/'' \<notin> set n"
  shows "open_error D (d @ CHR ''/'' # n) =
    (if CHR 0x00 \<in> set (d @ CHR ''/'' # n) then Some ''embedded null byte''
     else if path_max \<le> utf8_length (d @ CHR ''/'' # n) then Some (enametoolong (d @ CHR ''/'' # n))
     else if name_max < utf8_length d then Some (enametoolong (d @ CHR ''/'' # n))
     else if d \<notin> D then Some (enoent (d @ CHR ''/'' # n))
     else if name_max < utf8_length n then Some (enametoolong (d @ CHR ''/'' # n))
     else if d @ CHR ''/'' # n \<in> D then Some (eisdir (d @ CHR ''/'' # n))
     else None)"
  using assms
  by (simp add: open_error_def py_split_sep_first py_split_no_sep_eq Let_def del: utf8_length_append)

text \<open>When the rest has a slash, the walk stops at its first component, which
  is not a directory unless one exists below \<open>d\<close>.\<close>

lemma open_error_below_dir:
  assumes "CHR ''/'' \<notin> set d" and "d \<noteq> []" and "CHR ''/'' \<notin> set a"
    and "CHR 0x00 \<notin> set (d @ CHR ''/'' # a @ CHR ''/'' # b)"
    and "utf8_length (d @ CHR ''/'' # a @ CHR ''/'' # b) \<le> name_max"
    and "d @ CHR ''/'' # a \<notin> D"
  shows "open_error D (d @ CHR ''/'' # a @ CHR ''/'' # b) = Some (enoent (d @ CHR ''/'' # a @ CHR ''/'' # b))"
proof -
  have "butlast (py_split CHR ''/'' (d @ CHR ''/'' # a @ CHR ''/'' # b)) = d # a # butlast (py_split CHR ''/'' b)"
    using assms(1,3) by (simp add: py_split_sep_first)
  moreover have "utf8_length d \<le> name_max" and "utf8_length a \<le> name_max"
    and "\<not> path_max \<le> utf8_length (d @ CHR ''/'' # a @ CHR ''/'' # b)"
    using assms(5) by (simp_all add: name_max_def path_max_def)
  ultimately show ?thesis
    using assms(2,4,6) by (auto simp: open_error_def Let_def simp del: utf8_length_append utf8_length_Cons)
qed

end
