(* ===== verification/ArtifactStore.thy ===== *)
theory ArtifactStore
  imports FileSystem PyStr
begin

text \<open>
  The artifact store of \<^verbatim>\<open>src/main.py\<close>: the names under which an upload is
  staged (lines 96-98) and a generated file is written (lines 140-141), the
  paths that \<^verbatim>\<open>get_audio\<close>/\<^verbatim>\<open>delete_audio\<close> look at (lines 177, 189), and the
  cleanup block \<^verbatim>\<open>if os.path.exists(p): os.remove(p)\<close> that the handler
  repeats at lines 118-119, 148-149 and 166-167.  The lemmas show that the
  names of one request never meet those of another (tokens of equal length,
  as \<^verbatim>\<open>str(uuid.uuid4())\<close> gives), that staged and generated names never
  collide, that the upload extension carries no dot, and what a cleanup does.
\<close>

definition upload_ext :: "string \<Rightarrow> string" where
  "upload_ext fn = last (py_split CHR ''.'' fn)"

definition upload_filename :: "string \<Rightarrow> string \<Rightarrow> string" where
  "upload_filename upload_id fn = ''upload_'' @ upload_id @ ''.'' @ upload_ext fn"

definition upload_path :: "string \<Rightarrow> string \<Rightarrow> path" where
  "upload_path upload_id fn = ''uploads/'' @ upload_filename upload_id fn"

definition output_filename :: "string \<Rightarrow> string" where
  "output_filename upload_id = ''generated_'' @ upload_id @ ''.wav''"

definition output_path :: "string \<Rightarrow> path" where
  "output_path upload_id = ''generated/'' @ output_filename upload_id"

definition generated_path :: "string \<Rightarrow> path" where
  "generated_path filename = ''generated/'' @ filename"

definition cleanup_upload :: "fs \<Rightarrow> path \<Rightarrow> fs py" where
  "cleanup_upload s p = (if os_path_exists s p then os_remove s p else Inr s)"

subsection \<open>Names\<close>

lemma upload_ext_no_dot: "CHR ''.'' \<notin> set (upload_ext fn)"
proof -
  have "last (py_split CHR ''.'' fn) \<in> set (py_split CHR ''.'' fn)"
    by (rule last_in_set) simp
  then show ?thesis unfolding upload_ext_def by (rule py_split_no_sep)
qed

lemma output_path_generated: "output_path upload_id = generated_path (output_filename upload_id)"
  by (simp add: output_path_def generated_path_def)

lemma output_path_inj: "output_path a = output_path b \<longleftrightarrow> a = b"
  by (simp add: output_path_def output_filename_def)

lemma upload_path_inj:
  assumes "length a = length b" and "upload_path a f = upload_path b g"
  shows "a = b \<and> upload_ext f = upload_ext g"
proof -
  have "a @ ''.'' @ upload_ext f = b @ ''.'' @ upload_ext g"
    using assms(2) by (simp add: upload_path_def upload_filename_def)
  with assms(1) show ?thesis
    by (auto dest: append_same_length_cancel)
qed

lemma upload_path_ne_output_path: "upload_path a f \<noteq> output_path b"
  by (simp add: upload_path_def output_path_def)

lemma upload_path_in_uploads:
  "upload_path upload_id fn = ''uploads'' @ CHR ''/'' # upload_filename upload_id fn"
  by (simp add: upload_path_def)

text \<open>Opening a staging name whose extension has no slash: \<open>open\<close> fails
  on a NUL character, on a missing \<^verbatim>\<open>uploads\<close>, on a name longer than 255
  bytes, or when the name is a directory.\<close>

lemma open_error_upload_path:
  assumes "CHR ''/'' \<notin> set upload_id" and "CHR ''/'' \<notin> set (upload_ext fn)"
  shows "open_error D (upload_path upload_id fn) =
    (if CHR 0x00 \<in> set (upload_path upload_id fn) then Some ''embedded null byte''
     else if path_max \<le> utf8_length (upload_path upload_id fn)
       then Some (enametoolong (upload_path upload_id fn))
     else if ''uploads'' \<notin> D then Some (enoent (upload_path upload_id fn))
     else if name_max < utf8_length (upload_filename upload_id fn)
       then Some (enametoolong (upload_path upload_id fn))
     else if upload_path upload_id fn \<in> D then Some (eisdir (upload_path upload_id fn))
     else None)"
proof -
  have "CHR ''/'' \<notin> set (upload_filename upload_id fn)"
    using assms by (simp add: upload_filename_def)
  then have "open_error D (''uploads'' @ CHR ''/'' # upload_filename upload_id fn) =
    (if CHR 0x00 \<in> set (''uploads'' @ CHR ''/'' # upload_filename upload_id fn) then Some ''embedded null byte''
     else if path_max \<le> utf8_length (''uploads'' @ CHR ''/'' # upload_filename upload_id fn)
       then Some (enametoolong (''uploads'' @ CHR ''/'' # upload_filename upload_id fn))
     else if name_max < utf8_length ''uploads''
       then Some (enametoolong (''uploads'' @ CHR ''/'' # upload_filename upload_id fn))
     else if ''uploads'' \<notin> D then Some (enoent (''uploads'' @ CHR ''/'' # upload_filename upload_id fn))
     else if name_max < utf8_length (upload_filename upload_id fn)
       then Some (enametoolong (''uploads'' @ CHR ''/'' # upload_filename upload_id fn))
     else if ''uploads'' @ CHR ''/'' # upload_filename upload_id fn \<in> D
       then Some (eisdir (''uploads'' @ CHR ''/'' # upload_filename upload_id fn))
     else None)"
    by (intro open_error_in_dir) simp_all
  moreover have "\<not> name_max < utf8_length ''uploads''"
    by (simp add: name_max_def)
  ultimately show ?thesis
    unfolding upload_path_in_uploads by presburger
qed

text \<open>A slash in the extension puts the staging name below a directory
  \<^verbatim>\<open>uploads/upload_<token>.<...>\<close> that does not exist.\<close>

lemma open_error_upload_path_slash:
  assumes "CHR ''/'' \<in> set (upload_ext fn)" and "CHR 0x00 \<notin> set (upload_path upload_id fn)"
    and "utf8_length (upload_path upload_id fn) \<le> name_max" and "\<forall>d\<in>D. \<not> prefix ''uploads/'' d"
  shows "open_error D (upload_path upload_id fn) = Some (enoent (upload_path upload_id fn))"
proof -
  have "CHR ''/'' \<in> set (upload_filename upload_id fn)"
    using assms(1) by (simp add: upload_filename_def)
  then obtain a b where ab: "upload_filename upload_id fn = a @ CHR ''/'' # b" and a: "CHR ''/'' \<notin> set a"
    using split_list_first by (metis split_list_first_prop_iff)
  have nd: "''uploads'' @ CHR ''/'' # a \<notin> D"
    using assms(4) by auto
  show ?thesis
    using assms(2,3) a nd
    unfolding upload_path_in_uploads ab by (intro open_error_below_dir) simp_all
qed

subsection \<open>Cleanup\<close>

lemma cleanup_upload_Inr [fs_simps]:
  "cleanup_upload s p = Inr s' \<longleftrightarrow>
     (files s p \<noteq> None \<or> p \<notin> dirs s) \<and> s' = s\<lparr>files := (files s)(p := None)\<rparr>"
proof (cases "files s p")
  case None
  then have "s\<lparr>files := (files s)(p := None)\<rparr> = s"
    by (simp add: fun_upd_idem)
  with None show ?thesis
    by (auto simp: cleanup_upload_def os_path_exists_def os_remove_def)
qed (auto simp: cleanup_upload_def os_path_exists_def os_remove_def)

lemma cleanup_upload_Inl: "cleanup_upload s p = Inl e \<Longrightarrow> files s p = None \<and> p \<in> dirs s"
  by (auto simp: cleanup_upload_def os_path_exists_def os_remove_def split: if_splits)

lemma cleanup_upload_removes:
  "cleanup_upload s p = Inr s' \<Longrightarrow> files s' p = None \<and> dirs s' = dirs s"
  by (simp add: cleanup_upload_Inr)

subsection \<open>The upload extension against its reference\<close>

text \<open>C26.  \<^verbatim>\<open>filename.split('.')[-1]\<close> (line 97) computes the same string
  as the reference "the longest suffix without a dot", read right to left
  with \<open>takeWhile\<close>: the whole name when it has no dot, the empty string when
  it ends with one.\<close>

theorem upload_ext_suffix:
  "upload_ext fn = rev (takeWhile (\<lambda>c. c \<noteq> CHR ''.'') (rev fn))"
  by (simp add: upload_ext_def last_py_split)

end
