(* ===== verification/Audio.thy ===== *)
theory Audio
  imports Prelude
begin

text \<open>
  Waveforms as \<^verbatim>\<open>clone_voice\<close> handles them: a 2-D tensor of shape
  (channels, frames), kept as its rows (\<open>wav_data\<close>, one sample list per
  channel) and its second dimension \<open>wav_frames\<close> (\<^verbatim>\<open>shape[1]\<close>), so that a
  tensor with no channel still has a frame count.  Samples are real numbers
  (torch's float32 rounding is not modelled).  The operations are the mono
  conversion of lines 110-111 (\<^verbatim>\<open>wav.mean(dim=0, keepdim=True)\<close> when
  \<^verbatim>\<open>wav.shape[0] > 1\<close>), the first element of the decoder's batch
  (\<^verbatim>\<open>wavs[0]\<close>, lines 142 and 145) and the duration of line 145.  The lemmas
  show that the conversion keeps the shape well formed, leaves one channel
  whose samples are the channel averages, and is the identity on mono input.
\<close>

record waveform =
  wav_data :: "real list list"
  wav_frames :: nat

definition wf_waveform :: "waveform \<Rightarrow> bool" where
  "wf_waveform w \<longleftrightarrow> list_all (\<lambda>row. length row = wav_frames w) (wav_data w)"

definition wav_channels :: "waveform \<Rightarrow> nat" where
  "wav_channels w = length (wav_data w)"

definition mean_dim0_keepdim :: "waveform \<Rightarrow> waveform" where
  "mean_dim0_keepdim w =
     \<lparr>wav_data = [map (\<lambda>j. sum_list (map (\<lambda>row. row ! j) (wav_data w)) / real (wav_channels w))
                    [0..<wav_frames w]],
      wav_frames = wav_frames w\<rparr>"

definition to_mono :: "waveform \<Rightarrow> waveform" where
  "to_mono w = (if 1 < wav_channels w then mean_dim0_keepdim w else w)"

text \<open>\<^verbatim>\<open>wavs[0]\<close> on the decoder's (batch, channels, frames) tensor.\<close>

definition batch_first :: "waveform list \<Rightarrow> waveform py" where
  "batch_first wavs =
     (case wavs of
        [] \<Rightarrow> Inl ''index 0 is out of bounds for dimension 0 with size 0''
      | w # _ \<Rightarrow> Inr w)"

text \<open>\<^verbatim>\<open>wavs[0].shape[1] / sampling_rate\<close> (line 145).\<close>

definition audio_duration :: "waveform \<Rightarrow> int \<Rightarrow> real py" where
  "audio_duration w sr = py_truediv (int (wav_frames w)) sr"

subsection \<open>Mono conversion\<close>

lemma to_mono_frames [simp]: "wav_frames (to_mono w) = wav_frames w"
  by (simp add: to_mono_def mean_dim0_keepdim_def)

lemma to_mono_wf: "wf_waveform w \<Longrightarrow> wf_waveform (to_mono w)"
  by (simp add: to_mono_def mean_dim0_keepdim_def wf_waveform_def)

lemma to_mono_channels:
  assumes "0 < wav_channels w"
  shows "wav_channels (to_mono w) = 1"
proof (cases "1 < wav_channels w")
  case True
  then show ?thesis by (simp add: to_mono_def mean_dim0_keepdim_def wav_channels_def)
next
  case False
  with assms have "wav_channels w = 1" by linarith
  with False show ?thesis by (simp add: to_mono_def)
qed

lemma to_mono_id: "wav_channels w \<le> 1 \<Longrightarrow> to_mono w = w"
  by (simp add: to_mono_def)

lemma to_mono_sample:
  assumes "1 < wav_channels w" and "j < wav_frames w"
  shows "wav_data (to_mono w) ! 0 ! j =
           (\<Sum>i<wav_channels w. wav_data w ! i ! j) / real (wav_channels w)"
proof -
  have "sum_list (map (\<lambda>row. row ! j) (wav_data w)) = (\<Sum>i<wav_channels w. wav_data w ! i ! j)"
    by (simp add: sum_list_sum_nth wav_channels_def atLeast0LessThan)
  with assms show ?thesis
    by (simp add: to_mono_def mean_dim0_keepdim_def)
qed

lemma batch_first_Inr: "batch_first wavs = Inr w \<longleftrightarrow> wavs \<noteq> [] \<and> w = hd wavs"
  by (auto simp: batch_first_def split: list.splits)

lemma audio_duration_Inr:
  "audio_duration w sr = Inr d \<longleftrightarrow> sr \<noteq> 0 \<and> d = real (wav_frames w) / real_of_int sr"
  by (auto simp: audio_duration_def py_truediv_def)

subsection \<open>The shape handed to the speaker embedding\<close>

text \<open>C27.  Lines 110-111 hand \<^verbatim>\<open>make_speaker_embedding\<close> a well-formed
  tensor with exactly one channel and the frame count of the decoded file,
  whatever the number of channels of a well-formed, non-empty input.\<close>

theorem to_mono_shape:
  assumes "wf_waveform w" and "0 < wav_channels w"
  shows "wf_waveform (to_mono w) \<and> wav_channels (to_mono w) = 1 \<and> wav_frames (to_mono w) = wav_frames w"
  using to_mono_wf [OF assms(1)] to_mono_channels [OF assms(2)] by simp

theorem to_mono_shape_witness:
  "wf_waveform (to_mono \<lparr>wav_data = [[1, 2], [3, 4]], wav_frames = 2\<rparr>) \<and>
   wav_channels (to_mono \<lparr>wav_data = [[1, 2], [3, 4]], wav_frames = 2\<rparr>) = 1 \<and>
   wav_frames (to_mono \<lparr>wav_data = [[1, 2], [3, 4]], wav_frames = 2\<rparr>) = 2"
  using to_mono_shape [of "\<lparr>wav_data = [[1, 2], [3, 4]], wav_frames = 2\<rparr>"]
  by (simp add: wf_waveform_def wav_channels_def)

end
