(* ===== verification/Collaborators.thy ===== *)
theory Collaborators
  imports Audio FileSystem
begin

text \<open>
  The libraries \<^verbatim>\<open>src/main.py\<close> calls but does not contain, as interfaces.
  Each is a record of functions that the handler receives as a parameter, so
  every theorem about the handler holds for every implementation of them
  (including ones that raise at any call):
  \<^item> \<open>audio_backend\<close> is torchaudio: \<open>ta_load\<close> decodes the bytes of a file into
    a waveform and its native sample rate (\<^verbatim>\<open>torchaudio.load\<close>, line 107;
    the path is passed because the format is chosen by its extension),
    \<open>ta_encode\<close> produces the bytes \<^verbatim>\<open>torchaudio.save\<close> writes (line 142);
  \<^item> \<open>zonos\<close> is the Zonos model and its conditioning library:
    \<^verbatim>\<open>model.make_speaker_embedding\<close> (line 114), \<^verbatim>\<open>make_cond_dict\<close>
    (lines 124-130), \<^verbatim>\<open>model.prepare_conditioning\<close> (131),
    \<^verbatim>\<open>model.generate\<close> (134), \<^verbatim>\<open>model.autoencoder.decode\<close> (137) and
    \<^verbatim>\<open>model.autoencoder.sampling_rate\<close>.
  The type parameters are the opaque speaker embedding, conditioning
  dictionary, prepared conditioning and code types.  The two compositions
  below are how the handler uses torchaudio on files: load reads the staged
  file first, save encodes and then opens and writes the output path.
\<close>

record audio_backend =
  ta_load :: "path \<Rightarrow> bytes \<Rightarrow> (waveform \<times> int) py"
  ta_encode :: "waveform \<Rightarrow> int \<Rightarrow> bytes py"

record ('spk, 'cd, 'cond, 'codes) zonos =
  make_speaker_embedding :: "waveform \<Rightarrow> int \<Rightarrow> 'spk py"
  make_cond_dict :: "string \<Rightarrow> 'spk \<Rightarrow> string \<Rightarrow> real \<Rightarrow> real \<Rightarrow> 'cd py"
  prepare_conditioning :: "'cd \<Rightarrow> 'cond py"
  generate :: "'cond \<Rightarrow> 'codes py"
  ae_decode :: "'codes \<Rightarrow> waveform list py"
  ae_sampling_rate :: int

definition torchaudio_load :: "audio_backend \<Rightarrow> fs \<Rightarrow> path \<Rightarrow> (waveform \<times> int) py" where
  "torchaudio_load aio s p = py_bind (read_file s p) (ta_load aio p)"

text \<open>\<^verbatim>\<open>torchaudio.save\<close> encodes, opens the output and writes the bytes; a
  failed write (a full device) raises with the opened, empty file left at
  the path.\<close>

definition torchaudio_save :: "audio_backend \<Rightarrow> fs \<Rightarrow> path \<Rightarrow> waveform \<Rightarrow> int \<Rightarrow> unit py \<times> fs" where
  "torchaudio_save aio s p w sr =
     (case ta_encode aio w sr of
        Inl e \<Rightarrow> (Inl e, s)
      | Inr b \<Rightarrow>
          (case open_wb s p of
             Inl e \<Rightarrow> (Inl e, s)
           | Inr s1 \<Rightarrow>
               (case write_file s1 p b of
                  Inl e \<Rightarrow> (Inl e, s1)
                | Inr s2 \<Rightarrow> (Inr (), s2))))"

lemma torchaudio_save_Inr [fs_simps]:
  "torchaudio_save aio s p w sr = (Inr u, s') \<longleftrightarrow>
     (\<exists>b. ta_encode aio w sr = Inr b \<and> open_error (dirs s) p = None \<and> (\<not> disk_full s \<or> b = []) \<and>
          s' = s\<lparr>files := (files s)(p \<mapsto> b)\<rparr>)"
  by (auto simp: torchaudio_save_def open_wb_def write_file_def split: sum.splits option.splits)

lemma torchaudio_save_Inl:
  "torchaudio_save aio s p w sr = (Inl e, s') \<Longrightarrow>
     dirs s' = dirs s \<and> (files s' = files s \<or> files s' = (files s)(p \<mapsto> []))"
  by (auto simp: torchaudio_save_def open_wb_def write_file_def split: sum.splits option.splits if_splits)

end
