(* ===== verification/CloneVoice.thy ===== *)
theory CloneVoice
  imports ArtifactStore Collaborators
begin

text \<open>
  The \<^verbatim>\<open>POST /clone-voice\<close> handler, \<^verbatim>\<open>clone_voice\<close> of \<^verbatim>\<open>src/main.py\<close>
  (lines 72-173), as a function from the global model, the collaborators, the
  fresh \<^verbatim>\<open>uuid4\<close> token, the form request and the file system to the HTTP
  outcome and the new file system.  It is split where the source has its
  blocks: the model check (80-81), input validation (83-92), staging the
  upload (95-103), loading the reference and embedding the speaker inside the
  first inner \<^verbatim>\<open>try\<close> (106-120), synthesis inside the second (123-168), the
  response dictionary (151-162) and the outer \<^verbatim>\<open>except\<close> clauses (170-173).
  Exceptions inside the outer \<^verbatim>\<open>try\<close> are values of \<open>exn\<close>: a plain Python
  exception with its message, or an \<^verbatim>\<open>HTTPException\<close> raised by an inner
  handler, which the outer handler re-raises unchanged.
\<close>

record upload_file =
  up_filename :: "string option"
  up_content_type :: "string option"
  up_read :: "bytes py"

record clone_request =
  req_text :: string
  req_audio :: upload_file
  req_language :: string
  req_temperature :: real
  req_top_p :: real

record clone_response =
  audio_url :: string
  resp_filename :: string
  duration :: real
  resp_text :: string
  resp_language :: string
  sampling_rate :: int
  param_temperature :: real
  param_top_p :: real

datatype exn = PyExc string | HTTPExc int string

datatype 'a reply = Reply 'a | HTTPException int string

definition validate_clone_request :: "clone_request \<Rightarrow> (int \<times> string) option" where
  "validate_clone_request req =
     (if py_strip (req_text req) = [] then Some (400, ''Text cannot be empty'')
      else if 1000 < length (req_text req)
      then Some (400, ''Text too long (max 1000 characters)'')
      else (case up_content_type (req_audio req) of
              None \<Rightarrow> Some (400, ''Invalid audio file format'')
            | Some ct \<Rightarrow>
                if py_startswith ct ''audio/'' then None
                else Some (400, ''Invalid audio file format'')))"

text \<open>\<^verbatim>\<open>reference_audio.filename.split('.')\<close> on a missing filename raises
  \<^verbatim>\<open>AttributeError\<close>; a failed \<^verbatim>\<open>read()\<close> or \<^verbatim>\<open>f.write\<close> leaves the
  opened file behind.\<close>

definition stage_upload :: "string \<Rightarrow> upload_file \<Rightarrow> fs \<Rightarrow> (exn + path) \<times> fs" where
  "stage_upload upload_id up s =
     (case up_filename up of
        None \<Rightarrow>
          (Inl (PyExc (py_quote ''NoneType'' @ '' object has no attribute '' @ py_quote ''split'')), s)
      | Some fn \<Rightarrow>
          (let p = upload_path upload_id fn in
           case open_wb s p of
             Inl e \<Rightarrow> (Inl (PyExc e), s)
           | Inr s1 \<Rightarrow>
               (case up_read up of
                  Inl e \<Rightarrow> (Inl (PyExc e), s1)
                | Inr content \<Rightarrow>
                    (case write_file s1 p content of
                       Inl e \<Rightarrow> (Inl (PyExc e), s1)
                     | Inr s2 \<Rightarrow> (Inr p, s2)))))"

text \<open>The two inner \<^verbatim>\<open>except Exception as e\<close> blocks (116-120 and 164-168):
  remove the staged file if it exists, then raise an \<^verbatim>\<open>HTTPException\<close>; an
  error of the removal itself escapes as a plain exception.\<close>

definition except_cleanup :: "int \<Rightarrow> string \<Rightarrow> fs \<Rightarrow> path \<Rightarrow> string \<Rightarrow> (exn + 'a) \<times> fs" where
  "except_cleanup code msg s p e =
     (case cleanup_upload s p of
        Inl e2 \<Rightarrow> (Inl (PyExc e2), s)
      | Inr s' \<Rightarrow> (Inl (HTTPExc code (msg @ e)), s'))"

definition load_reference ::
  "('spk, 'cd, 'cond, 'codes) zonos \<Rightarrow> audio_backend \<Rightarrow> fs \<Rightarrow> path \<Rightarrow> (exn + 'spk) \<times> fs" where
  "load_reference zm aio s p =
     (case py_bind (torchaudio_load aio s p)
             (\<lambda>(wav, sr). make_speaker_embedding zm (to_mono wav) sr) of
        Inl e \<Rightarrow> except_cleanup 400 ''Error processing audio file: '' s p e
      | Inr spk \<Rightarrow> (Inr spk, s))"

text \<open>Lines 124-137: conditioning, generation and decoding, then \<^verbatim>\<open>wavs[0]\<close>.\<close>

definition decode_speech ::
  "('spk, 'cd, 'cond, 'codes) zonos \<Rightarrow> clone_request \<Rightarrow> 'spk \<Rightarrow> waveform py" where
  "decode_speech zm req spk =
     py_bind (make_cond_dict zm (req_text req) spk (req_language req)
                (req_temperature req) (req_top_p req))
       (\<lambda>cd. py_bind (prepare_conditioning zm cd)
       (\<lambda>cond. py_bind (generate zm cond)
       (\<lambda>codes. py_bind (ae_decode zm codes) batch_first)))"

definition clone_result :: "string \<Rightarrow> clone_request \<Rightarrow> int \<Rightarrow> real \<Rightarrow> clone_response" where
  "clone_result upload_id req sr dur =
     \<lparr>audio_url = ''/audio/'' @ output_filename upload_id,
      resp_filename = output_filename upload_id,
      duration = py_round2 dur,
      resp_text = req_text req,
      resp_language = req_language req,
      sampling_rate = sr,
      param_temperature = req_temperature req,
      param_top_p = req_top_p req\<rparr>"

definition synthesize ::
  "('spk, 'cd, 'cond, 'codes) zonos \<Rightarrow> audio_backend \<Rightarrow> string \<Rightarrow> clone_request \<Rightarrow>
   fs \<Rightarrow> path \<Rightarrow> 'spk \<Rightarrow> (exn + clone_response) \<times> fs" where
  "synthesize zm aio upload_id req s p spk =
     (let sr = ae_sampling_rate zm;
          fail = except_cleanup 500 ''Error generating speech: ''
      in case decode_speech zm req spk of
           Inl e \<Rightarrow> fail s p e
         | Inr w0 \<Rightarrow>
             (case torchaudio_save aio s (output_path upload_id) w0 sr of
                (Inl e, s1) \<Rightarrow> fail s1 p e
              | (Inr _, s1) \<Rightarrow>
                  (case audio_duration w0 sr of
                     Inl e \<Rightarrow> fail s1 p e
                   | Inr dur \<Rightarrow>
                       (case cleanup_upload s1 p of
                          Inl e \<Rightarrow> fail s1 p e
                        | Inr s2 \<Rightarrow> (Inr (clone_result upload_id req sr dur), s2)))))"

definition clone_voice_body ::
  "('spk, 'cd, 'cond, 'codes) zonos \<Rightarrow> audio_backend \<Rightarrow> string \<Rightarrow> clone_request \<Rightarrow>
   fs \<Rightarrow> (exn + clone_response) \<times> fs" where
  "clone_voice_body zm aio upload_id req s =
     (case stage_upload upload_id (req_audio req) s of
        (Inl x, s1) \<Rightarrow> (Inl x, s1)
      | (Inr p, s1) \<Rightarrow>
          (case load_reference zm aio s1 p of
             (Inl x, s2) \<Rightarrow> (Inl x, s2)
           | (Inr spk, s2) \<Rightarrow> synthesize zm aio upload_id req s2 p spk))"

definition outer_except :: "exn \<Rightarrow> 'a reply" where
  "outer_except x =
     (case x of
        HTTPExc code detail \<Rightarrow> HTTPException code detail
      | PyExc m \<Rightarrow> HTTPException 500 (''Unexpected error: '' @ m))"

definition clone_voice ::
  "('spk, 'cd, 'cond, 'codes) zonos option \<Rightarrow> audio_backend \<Rightarrow> string \<Rightarrow> clone_request \<Rightarrow>
   fs \<Rightarrow> clone_response reply \<times> fs" where
  "clone_voice model aio upload_id req s =
     (case model of
        None \<Rightarrow> (HTTPException 503 ''Model not loaded'', s)
      | Some zm \<Rightarrow>
          (case validate_clone_request req of
             Some (code, detail) \<Rightarrow> (HTTPException code detail, s)
           | None \<Rightarrow>
               (case clone_voice_body zm aio upload_id req s of
                  (Inl x, s') \<Rightarrow> (outer_except x, s')
                | (Inr resp, s') \<Rightarrow> (Reply resp, s'))))"


subsection \<open>A concrete request\<close>

text \<open>A model whose every call succeeds (decoding to four frames at 2 Hz), a
  torchaudio that decodes any upload to a stereo clip, a valid request and a
  file system with both directories: the witnesses below run the handler on
  them and on variants with one call failing.\<close>

abbreviation ex_zonos :: "(unit, unit, unit, unit) zonos" where
  "ex_zonos \<equiv>
     \<lparr>make_speaker_embedding = (\<lambda>w sr. Inr ()),
      make_cond_dict = (\<lambda>t spk l tmp tp. Inr ()), prepare_conditioning = (\<lambda>_. Inr ()),
      generate = (\<lambda>_. Inr ()),
      ae_decode = (\<lambda>_. Inr [\<lparr>wav_data = [[0, 0, 0, 0]], wav_frames = 4\<rparr>]),
      ae_sampling_rate = 2\<rparr>"

abbreviation ex_audio :: audio_backend where
  "ex_audio \<equiv>
     \<lparr>ta_load = (\<lambda>p b. Inr (\<lparr>wav_data = [[1, 2], [3, 4]], wav_frames = 2\<rparr>, 16000)),
      ta_encode = (\<lambda>w sr. Inr [1, 2])\<rparr>"

abbreviation ex_upload :: upload_file where
  "ex_upload \<equiv> \<lparr>up_filename = Some ''ref.wav'', up_content_type = Some ''audio/wav'', up_read = Inr [7]\<rparr>"

abbreviation ex_request :: clone_request where
  "ex_request \<equiv>
     \<lparr>req_text = ''Hello world.'', req_audio = ex_upload, req_language = ''en-us'',
      req_temperature = 1, req_top_p = 9/10\<rparr>"

abbreviation ex_fs :: fs where
  "ex_fs \<equiv> \<lparr>files = Map.empty, dirs = {''uploads'', ''generated''}, disk_full = False\<rparr>"

lemmas clone_voice_blocks =
  clone_voice_def clone_voice_body_def stage_upload_def load_reference_def synthesize_def
  except_cleanup_def outer_except_def

lemmas clone_voice_eval =
  clone_voice_blocks validate_clone_request_def py_strip_def py_isspace_def py_startswith_def
  upload_path_def upload_filename_def upload_ext_def open_wb_def open_error_def name_max_def
  path_max_def write_file_def torchaudio_load_def read_file_def decode_speech_def batch_first_def
  torchaudio_save_def output_path_def output_filename_def audio_duration_def cleanup_upload_def
  os_path_exists_def os_remove_def Let_def clone_result_def

subsection \<open>Effect of each block on the file system\<close>

lemma stage_upload_Inr:
  "stage_upload upload_id up s = (Inr p, s1) \<longleftrightarrow>
     (\<exists>fn c. up_filename up = Some fn \<and> up_read up = Inr c \<and> p = upload_path upload_id fn \<and>
        open_error (dirs s) p = None \<and> (\<not> disk_full s \<or> c = []) \<and>
        s1 = s\<lparr>files := (files s)(p \<mapsto> c)\<rparr>)"
  by (auto simp: stage_upload_def Let_def open_wb_def write_file_def
      split: option.splits sum.splits if_splits)

text \<open>A request that fails while staging leaves the file system as it was,
  or with the empty staging file when the read or the write failed.\<close>

lemma stage_upload_Inl:
  "stage_upload upload_id up s = (Inl x, s1) \<Longrightarrow>
     s1 = s \<or> (\<exists>fn. up_filename up = Some fn \<and>
                (isl (up_read up) \<or> (\<exists>c. up_read up = Inr c \<and> disk_full s \<and> c \<noteq> [])) \<and>
                s1 = s\<lparr>files := (files s)(upload_path upload_id fn \<mapsto> [])\<rparr>)"
  by (auto simp: stage_upload_def Let_def open_wb_def write_file_def
      split: option.splits sum.splits if_splits)

lemma except_cleanup_effect:
  assumes "except_cleanup code msg s p e = (r, s')"
  shows "isl r \<and> files s' = (files s)(p := None) \<and> dirs s' = dirs s"
proof (cases "cleanup_upload s p")
  case (Inl e2)
  then have "files s p = None" by (simp add: cleanup_upload_Inl)
  with Inl assms show ?thesis by (auto simp: except_cleanup_def fun_upd_idem)
next
  case (Inr s2)
  with assms show ?thesis by (auto simp: except_cleanup_def cleanup_upload_Inr)
qed

lemma load_reference_cases:
  assumes "load_reference zm aio s p = (r, s')"
  shows "(\<exists>spk. r = Inr spk \<and> s' = s) \<or>
         (isl r \<and> files s' = (files s)(p := None) \<and> dirs s' = dirs s)"
proof (cases "py_bind (torchaudio_load aio s p)
                 (\<lambda>(wav, sr). make_speaker_embedding zm (to_mono wav) sr)")
  case (Inl e)
  with assms have "except_cleanup 400 ''Error processing audio file: '' s p e = (r, s')"
    by (simp add: load_reference_def)
  then show ?thesis by (simp add: except_cleanup_effect)
next
  case (Inr spk)
  with assms show ?thesis by (auto simp: load_reference_def)
qed


lemma synthesize_effect:
  assumes run: "synthesize zm aio upload_id req s p spk = (r, s')"
    and neq: "p \<noteq> output_path upload_id"
  shows "dirs s' = dirs s \<and> (\<exists>v. files s' = ((files s)(p := None))(output_path upload_id := v))"
proof -
  let ?O = "output_path upload_id" and ?sr = "ae_sampling_rate zm"
    and ?fail = "except_cleanup 500 ''Error generating speech: ''"
  have unsaved: "dirs s' = dirs s \<and> files s' = ((files s)(p := None))(?O := files s ?O)"
    if "?fail s p e = (r, s')" for e
    using except_cleanup_effect [OF that] neq by (simp add: fun_upd_idem)
  show ?thesis
  proof (cases "decode_speech zm req spk")
    case (Inl e)
    with run have "?fail s p e = (r, s')" by (simp add: synthesize_def)
    then show ?thesis using unsaved by blast
  next
    case (Inr w0)
    obtain u s1 where save: "torchaudio_save aio s ?O w0 ?sr = (u, s1)"
      by fastforce
    show ?thesis
    proof (cases u)
      case (Inl e)
      with run Inr save have "?fail s1 p e = (r, s')" by (simp add: synthesize_def)
      from except_cleanup_effect [OF this] torchaudio_save_Inl [OF save [unfolded Inl]] neq
      have "dirs s' = dirs s \<and> (files s' = ((files s)(p := None))(?O := files s ?O) \<or>
              files s' = ((files s)(p := None))(?O \<mapsto> []))"
        by (auto simp: fun_eq_iff)
      then show ?thesis by blast
    next
      case (Inr v)
      with save obtain b where s1: "s1 = s\<lparr>files := (files s)(?O \<mapsto> b)\<rparr>"
        by (auto simp: torchaudio_save_Inr)
      have tail: "dirs s' = dirs s1 \<and> files s' = (files s1)(p := None)"
      proof (cases "audio_duration w0 ?sr")
        case (Inl e)
        with run \<open>decode_speech zm req spk = Inr w0\<close> save \<open>u = Inr v\<close>
        have "?fail s1 p e = (r, s')" by (simp add: synthesize_def)
        then show ?thesis by (simp add: except_cleanup_effect)
      next
        case dur: (Inr d)
        show ?thesis
        proof (cases "cleanup_upload s1 p")
          case (Inl e)
          with run \<open>decode_speech zm req spk = Inr w0\<close> save \<open>u = Inr v\<close> dur
          have "?fail s1 p e = (r, s')" by (simp add: synthesize_def)
          then show ?thesis by (simp add: except_cleanup_effect)
        next
          case (Inr s2)
          with run \<open>decode_speech zm req spk = Inr w0\<close> save \<open>u = Inr v\<close> dur
          have "s' = s2" by (simp add: synthesize_def)
          with Inr show ?thesis by (simp add: cleanup_upload_Inr)
        qed
      qed
      with s1 neq show ?thesis by (auto simp: fun_upd_twist)
    qed
  qed
qed


lemma clone_voice_body_effect:
  assumes run: "clone_voice_body zm aio upload_id req s = (r, s')"
    and read: "up_read (req_audio req) = Inr content" and written: "\<not> disk_full s \<or> content = []"
    and fresh: "\<forall>fn. up_filename (req_audio req) = Some fn \<longrightarrow> files s (upload_path upload_id fn) = None"
  shows "dirs s' = dirs s \<and> (\<exists>v. files s' = (files s)(output_path upload_id := v))"
proof (cases "stage_upload upload_id (req_audio req) s")
  case (Pair r1 s1)
  show ?thesis
  proof (cases r1)
    case (Inl x)
    with Pair read written have "s1 = s" by (auto dest: stage_upload_Inl)
    with Pair Inl run have "s' = s" by (simp add: clone_voice_body_def)
    then show ?thesis by (metis fun_upd_triv)
  next
    case (Inr p)
    with Pair obtain fn c where fn: "up_filename (req_audio req) = Some fn"
      and p: "p = upload_path upload_id fn" and s1: "s1 = s\<lparr>files := (files s)(p \<mapsto> c)\<rparr>"
      by (auto simp: stage_upload_Inr)
    from fresh fn p have pfresh: "(files s)(p := None) = files s"
      by (simp add: fun_upd_idem)
    show ?thesis
    proof (cases "load_reference zm aio s1 p")
      case (Pair r2 s2)
      from load_reference_cases [OF this] show ?thesis
      proof
        assume "\<exists>spk. r2 = Inr spk \<and> s2 = s1"
        then obtain spk where "r2 = Inr spk" and "s2 = s1" by blast
        with run Pair \<open>stage_upload upload_id (req_audio req) s = (r1, s1)\<close> Inr
        have "synthesize zm aio upload_id req s1 p spk = (r, s')"
          by (simp add: clone_voice_body_def)
        from synthesize_effect [OF this] p s1 pfresh show ?thesis
          by (simp add: upload_path_ne_output_path)
      next
        assume l: "isl r2 \<and> files s2 = (files s1)(p := None) \<and> dirs s2 = dirs s1"
        then obtain x where "r2 = Inl x" by (cases r2) auto
        with run Pair \<open>stage_upload upload_id (req_audio req) s = (r1, s1)\<close> Inr
        have "s' = s2" by (simp add: clone_voice_body_def)
        with l s1 pfresh have "files s' = files s" and "dirs s' = dirs s"
          by simp_all
        then show ?thesis by (metis fun_upd_triv)
      qed
    qed
  qed
qed


subsection \<open>The success path\<close>

lemma except_cleanup_Inl: "except_cleanup code msg s p e = (r, s') \<Longrightarrow> isl r"
  by (simp add: except_cleanup_effect)

lemma load_reference_Inr:
  "load_reference zm aio s p = (Inr spk, s') \<longleftrightarrow>
     s' = s \<and> (\<exists>wav sr. torchaudio_load aio s p = Inr (wav, sr) \<and>
                        make_speaker_embedding zm (to_mono wav) sr = Inr spk)"
  by (auto simp: load_reference_def py_bind_eq_Inr_iff split: sum.splits
      dest: except_cleanup_Inl)

lemma synthesize_Inr:
  "synthesize zm aio upload_id req s p spk = (Inr resp, s') \<longleftrightarrow>
     (\<exists>w0 s1 d. decode_speech zm req spk = Inr w0 \<and>
        torchaudio_save aio s (output_path upload_id) w0 (ae_sampling_rate zm) = (Inr (), s1) \<and>
        audio_duration w0 (ae_sampling_rate zm) = Inr d \<and> cleanup_upload s1 p = Inr s' \<and>
        resp = clone_result upload_id req (ae_sampling_rate zm) d)"
  by (auto simp: synthesize_def Let_def split: sum.splits prod.splits dest: except_cleanup_Inl)

lemma clone_voice_Reply:
  "clone_voice model aio upload_id req s = (Reply resp, s') \<longleftrightarrow>
     (\<exists>zm p s1 spk. model = Some zm \<and> validate_clone_request req = None \<and>
        stage_upload upload_id (req_audio req) s = (Inr p, s1) \<and>
        load_reference zm aio s1 p = (Inr spk, s1) \<and>
        synthesize zm aio upload_id req s1 p spk = (Inr resp, s'))"
proof -
  have keep: "load_reference zm aio s1 p = (Inr spk, s2) \<Longrightarrow> s2 = s1" for zm s1 p spk s2
    by (simp add: load_reference_Inr)
  show ?thesis
    by (auto simp: clone_voice_def clone_voice_body_def outer_except_def dest: keep
        split: option.splits sum.splits prod.splits exn.splits)
qed


subsection \<open>Properties of the handler\<close>

text \<open>C1.  Whatever the collaborators do, a request whose upload was read
  and could be written to the staging file (the device is not full, or the
  upload is empty) leaves no staged file behind and changes no other file
  but its own generated output \<^verbatim>\<open>generated/generated_<token>.wav\<close>; no
  directory is created or removed.  The staging name is assumed fresh, as
  the \<^verbatim>\<open>uuid4\<close> token makes it.  When the read or the write fails, the
  staging file stays (C7, C12).\<close>

theorem clone_voice_only_output:
  assumes run: "clone_voice model aio upload_id req s = (r, s')"
    and read: "up_read (req_audio req) = Inr content" and written: "\<not> disk_full s \<or> content = []"
    and fresh: "\<forall>fn. up_filename (req_audio req) = Some fn \<longrightarrow> files s (upload_path upload_id fn) = None"
  shows "dirs s' = dirs s \<and> (\<exists>v. files s' = (files s)(output_path upload_id := v))"
proof (cases "model = None \<or> validate_clone_request req \<noteq> None")
  case True
  with run have "s' = s"
    by (auto simp: clone_voice_def split: option.splits)
  then show ?thesis by (metis fun_upd_triv)
next
  case False
  then obtain zm where zm: "model = Some zm"
    by (cases model) simp_all
  from False have v: "validate_clone_request req = None"
    by (cases "validate_clone_request req") simp_all
  obtain x where "clone_voice_body zm aio upload_id req s = (x, s')"
    using run zm v by (auto simp: clone_voice_def split: prod.splits sum.splits)
  from clone_voice_body_effect [OF this read written fresh] show ?thesis .
qed

theorem clone_voice_only_output_witness:
  "up_read (req_audio ex_request) = Inr [7] \<and> \<not> disk_full ex_fs \<and>
   up_filename (req_audio ex_request) = Some ''ref.wav'' \<and>
   files ex_fs (upload_path ''abc'' ''ref.wav'') = None \<and>
   dirs (snd (clone_voice (Some ex_zonos) ex_audio ''abc'' ex_request ex_fs)) = dirs ex_fs \<and>
   (\<exists>v. files (snd (clone_voice (Some ex_zonos) ex_audio ''abc'' ex_request ex_fs)) =
         (files ex_fs)(output_path ''abc'' := v))"
  using clone_voice_only_output [of "Some ex_zonos" ex_audio "''abc''" ex_request ex_fs
      "fst (clone_voice (Some ex_zonos) ex_audio ''abc'' ex_request ex_fs)"
      "snd (clone_voice (Some ex_zonos) ex_audio ''abc'' ex_request ex_fs)" "[7]"]
  by simp

text \<open>C2.  The handler answers with a response exactly when the model is
  loaded, the inputs are valid, the upload can be opened and written (the
  device is not full unless the upload is empty) and decoded, the speaker is
  embedded from the mono-converted reference, the model produces a
  waveform, torchaudio encodes it and the output can be opened and written,
  and the output sampling rate is not zero.  The response then echoes the request,
  carries the output name and the rounded duration frames/rate, and the
  file system has the output file and no staged file.\<close>

theorem clone_voice_success:
  "clone_voice model aio upload_id req s = (Reply resp, s') \<longleftrightarrow>
   (\<exists>zm fn c wav sr spk w0 b.
      model = Some zm \<and> validate_clone_request req = None \<and>
      up_filename (req_audio req) = Some fn \<and> up_read (req_audio req) = Inr c \<and>
      open_error (dirs s) (upload_path upload_id fn) = None \<and> (\<not> disk_full s \<or> c = []) \<and>
      ta_load aio (upload_path upload_id fn) c = Inr (wav, sr) \<and>
      make_speaker_embedding zm (to_mono wav) sr = Inr spk \<and>
      decode_speech zm req spk = Inr w0 \<and>
      ta_encode aio w0 (ae_sampling_rate zm) = Inr b \<and>
      open_error (dirs s) (output_path upload_id) = None \<and> (\<not> disk_full s \<or> b = []) \<and>
      ae_sampling_rate zm \<noteq> 0 \<and>
      resp = clone_result upload_id req (ae_sampling_rate zm)
               (real (wav_frames w0) / real_of_int (ae_sampling_rate zm)) \<and>
      s' = s\<lparr>files := ((files s)(output_path upload_id \<mapsto> b))(upload_path upload_id fn := None)\<rparr>)"
  unfolding clone_voice_Reply stage_upload_Inr load_reference_Inr synthesize_Inr torchaudio_save_Inr
    audio_duration_Inr cleanup_upload_Inr torchaudio_load_def py_bind_eq_Inr_iff read_file_Inr
  by (auto simp: upload_path_ne_output_path)

theorem clone_voice_success_witness:
  "clone_voice (Some ex_zonos) ex_audio ''abc'' ex_request ex_fs =
     (Reply (clone_result ''abc'' ex_request 2 2),
      ex_fs\<lparr>files := [output_path ''abc'' \<mapsto> [1, 2]]\<rparr>)"
proof -
  have "clone_voice (Some ex_zonos) ex_audio ''abc'' ex_request ex_fs =
          (Reply (clone_result ''abc'' ex_request 2 2),
           snd (clone_voice (Some ex_zonos) ex_audio ''abc'' ex_request ex_fs))"
    by (simp add: clone_voice_eval)
  then show ?thesis
    using clone_voice_success [of "Some ex_zonos" ex_audio "''abc''" ex_request ex_fs
        "clone_result ''abc'' ex_request 2 2"]
    by (simp add: clone_voice_eval)
qed


text \<open>C3.  A response names the file \<^verbatim>\<open>generated_<token>.wav\<close>, served under
  \<^verbatim>\<open>/audio/\<close>, reports the model's output rate, and its duration is within
  half a hundredth of a second of frames / rate of the waveform whose encoding
  is the file now on disk.\<close>

theorem clone_voice_duration:
  assumes "clone_voice (Some zm) aio upload_id req s = (Reply resp, s')"
  shows "resp_filename resp = ''generated_'' @ upload_id @ ''.wav'' \<and>
         audio_url resp = ''/audio/'' @ resp_filename resp \<and>
         sampling_rate resp = ae_sampling_rate zm \<and>
         (\<exists>w0 b. ta_encode aio w0 (sampling_rate resp) = Inr b \<and>
            files s' (generated_path (resp_filename resp)) = Some b \<and>
            \<bar>duration resp - real (wav_frames w0) / real_of_int (sampling_rate resp)\<bar> \<le> 1/200)"
proof -
  from assms obtain p s1 spk where st: "stage_upload upload_id (req_audio req) s = (Inr p, s1)"
    and syn: "synthesize zm aio upload_id req s1 p spk = (Inr resp, s')"
    by (auto simp: clone_voice_Reply)
  from st obtain fn where p: "p = upload_path upload_id fn"
    by (auto simp: stage_upload_Inr)
  from syn obtain w0 s2 d
    where save: "torchaudio_save aio s1 (output_path upload_id) w0 (ae_sampling_rate zm) = (Inr (), s2)"
      and dur: "audio_duration w0 (ae_sampling_rate zm) = Inr d"
      and cl: "cleanup_upload s2 p = Inr s'"
      and resp: "resp = clone_result upload_id req (ae_sampling_rate zm) d"
    by (auto simp: synthesize_Inr)
  from save obtain b where enc: "ta_encode aio w0 (ae_sampling_rate zm) = Inr b"
    and s2: "files s2 = (files s1)(output_path upload_id \<mapsto> b)"
    by (auto simp: torchaudio_save_Inr)
  have "p \<noteq> output_path upload_id"
    using p by (simp add: upload_path_ne_output_path)
  with cl s2 have out: "files s' (output_path upload_id) = Some b"
    by (auto simp: cleanup_upload_Inr)
  from dur have "d = real (wav_frames w0) / real_of_int (ae_sampling_rate zm)"
    by (simp add: audio_duration_Inr)
  with out enc resp py_round2_close [of d] show ?thesis
    by (auto simp: clone_result_def output_path_generated output_filename_def)
qed

theorem clone_voice_duration_witness:
  "clone_voice (Some ex_zonos) ex_audio ''abc'' ex_request ex_fs =
     (Reply (clone_result ''abc'' ex_request 2 2),
      snd (clone_voice (Some ex_zonos) ex_audio ''abc'' ex_request ex_fs)) \<and>
   resp_filename (clone_result ''abc'' ex_request 2 2) = ''generated_abc.wav'' \<and>
   sampling_rate (clone_result ''abc'' ex_request 2 2) = 2"
proof -
  have run: "clone_voice (Some ex_zonos) ex_audio ''abc'' ex_request ex_fs =
          (Reply (clone_result ''abc'' ex_request 2 2),
           snd (clone_voice (Some ex_zonos) ex_audio ''abc'' ex_request ex_fs))"
    by (simp add: clone_voice_eval)
  from clone_voice_duration [OF run] run show ?thesis
    by simp
qed

text \<open>C4.  A text longer than 1000 characters is refused with status 400
  before anything is staged or any model or torchaudio call is made: the
  outcome is the same for every model and every backend, and the file system
  is unchanged.\<close>

theorem clone_voice_text_too_long:
  assumes "1000 < length (req_text req)"
  shows "\<exists>detail. clone_voice (Some zm) aio upload_id req s = (HTTPException 400 detail, s)"
proof -
  have "\<exists>detail. validate_clone_request req = Some (400, detail)"
    using assms by (simp add: validate_clone_request_def)
  then show ?thesis by (auto simp: clone_voice_def)
qed

theorem clone_voice_text_too_long_witness:
  "1000 < length (req_text (ex_request\<lparr>req_text := replicate 1001 CHR ''a''\<rparr>)) \<and>
   (\<exists>detail. clone_voice (Some ex_zonos) ex_audio ''abc'' (ex_request\<lparr>req_text := replicate 1001 CHR ''a''\<rparr>)
      ex_fs = (HTTPException 400 detail, ex_fs))"
  using clone_voice_text_too_long [of "ex_request\<lparr>req_text := replicate 1001 CHR ''a''\<rparr>"
      ex_zonos ex_audio "''abc''" ex_fs]
  by simp

text \<open>C5.  Without a loaded model every request is answered 503, whatever
  its inputs, and nothing is written.\<close>

theorem clone_voice_model_not_loaded:
  "clone_voice None aio upload_id req s = (HTTPException 503 ''Model not loaded'', s)"
  by (simp add: clone_voice_def)

text \<open>C6.  With a valid text, a content type that does not start with
  \<^verbatim>\<open>audio/\<close> is refused with 400 \<^verbatim>\<open>Invalid audio file format\<close> before the
  upload is staged or decoded.\<close>

theorem clone_voice_non_audio_type:
  assumes "up_content_type (req_audio req) = Some ct" and "\<not> py_startswith ct ''audio/''"
    and "\<not> list_all py_isspace (req_text req)" and "length (req_text req) \<le> 1000"
  shows "clone_voice (Some zm) aio upload_id req s =
           (HTTPException 400 ''Invalid audio file format'', s)"
  using assms by (simp add: clone_voice_def validate_clone_request_def py_strip_empty_iff)

theorem clone_voice_non_audio_type_witness:
  "up_content_type (req_audio (ex_request\<lparr>req_audio := ex_upload\<lparr>up_content_type := Some ''text/plain''\<rparr>\<rparr>))
     = Some ''text/plain'' \<and>
   \<not> py_startswith ''text/plain'' ''audio/'' \<and> \<not> list_all py_isspace ''Hello world.'' \<and>
   clone_voice (Some ex_zonos) ex_audio ''abc''
     (ex_request\<lparr>req_audio := ex_upload\<lparr>up_content_type := Some ''text/plain''\<rparr>\<rparr>) ex_fs =
     (HTTPException 400 ''Invalid audio file format'', ex_fs)"
proof -
  have ct: "\<not> py_startswith ''text/plain'' ''audio/''"
    by (simp add: py_startswith_def)
  have text_ok: "\<not> list_all py_isspace ''Hello world.''"
    by (simp add: py_isspace_def)
  show ?thesis
    using clone_voice_non_audio_type [of "ex_request\<lparr>req_audio := ex_upload\<lparr>up_content_type := Some ''text/plain''\<rparr>\<rparr>"
        "''text/plain''" ex_zonos ex_audio "''abc''" ex_fs] ct text_ok
    by simp
qed


text \<open>C7.  When reading the upload fails after the staging file has been
  opened, the handler answers 500 and the empty staging file stays in
  \<^verbatim>\<open>uploads/\<close>: the failure escapes both inner \<^verbatim>\<open>try\<close> blocks, and the outer
  handler does no cleanup.\<close>

theorem clone_voice_read_failure_leaks:
  assumes "validate_clone_request req = None" and "up_filename (req_audio req) = Some fn"
    and "up_read (req_audio req) = Inl e"
    and "open_error (dirs s) (upload_path upload_id fn) = None"
  shows "clone_voice (Some zm) aio upload_id req s =
           (HTTPException 500 (''Unexpected error: '' @ e),
            s\<lparr>files := (files s)(upload_path upload_id fn \<mapsto> [])\<rparr>)"
  using assms
  by (simp add: clone_voice_def clone_voice_body_def stage_upload_def Let_def open_wb_def
      outer_except_def)

theorem clone_voice_read_failure_leaks_witness:
  "clone_voice (Some ex_zonos) ex_audio ''abc''
     (ex_request\<lparr>req_audio := ex_upload\<lparr>up_read := Inl ''Connection reset''\<rparr>\<rparr>) ex_fs =
   (HTTPException 500 (''Unexpected error: '' @ ''Connection reset''),
    ex_fs\<lparr>files := (files ex_fs)(upload_path ''abc'' ''ref.wav'' \<mapsto> [])\<rparr>)"
proof -
  have v: "validate_clone_request (ex_request\<lparr>req_audio := ex_upload\<lparr>up_read := Inl ''Connection reset''\<rparr>\<rparr>)
           = None"
    by (simp add: validate_clone_request_def py_strip_def py_isspace_def py_startswith_def)
  have d: "open_error (dirs ex_fs) (upload_path ''abc'' ''ref.wav'') = None"
    by (simp add: open_error_def upload_path_def upload_filename_def upload_ext_def name_max_def
        path_max_def Let_def)
  show ?thesis
    using clone_voice_read_failure_leaks [OF v, of "''ref.wav''" "''Connection reset''" ex_fs "''abc''"
        ex_zonos ex_audio] d
    by simp
qed

text \<open>C12.  When the device is full, writing a non-empty upload to the
  staging file (line 103) raises \<^verbatim>\<open>OSError\<close> \<^verbatim>\<open>ENOSPC\<close>: like a failed
  read, it escapes both inner \<^verbatim>\<open>try\<close> blocks, the handler answers 500, and
  the opened, empty staging file stays in \<^verbatim>\<open>uploads/\<close>.\<close>

theorem clone_voice_write_failure_leaks:
  assumes "validate_clone_request req = None" and "up_filename (req_audio req) = Some fn"
    and "up_read (req_audio req) = Inr c" and "c \<noteq> []" and "disk_full s"
    and "open_error (dirs s) (upload_path upload_id fn) = None"
  shows "clone_voice (Some zm) aio upload_id req s =
           (HTTPException 500 (''Unexpected error: '' @ enospc),
            s\<lparr>files := (files s)(upload_path upload_id fn \<mapsto> [])\<rparr>)"
  using assms
  by (simp add: clone_voice_def clone_voice_body_def stage_upload_def Let_def open_wb_def
      write_file_def outer_except_def)

theorem clone_voice_write_failure_leaks_witness:
  "clone_voice (Some ex_zonos) ex_audio ''abc'' ex_request (ex_fs\<lparr>disk_full := True\<rparr>) =
   (HTTPException 500 (''Unexpected error: '' @ enospc),
    ex_fs\<lparr>disk_full := True, files := [upload_path ''abc'' ''ref.wav'' \<mapsto> []]\<rparr>)"
proof -
  have v: "validate_clone_request ex_request = None"
    by (simp add: validate_clone_request_def py_strip_def py_isspace_def py_startswith_def)
  have d: "open_error (dirs (ex_fs\<lparr>disk_full := True\<rparr>)) (upload_path ''abc'' ''ref.wav'') = None"
    by (simp add: open_error_def upload_path_def upload_filename_def upload_ext_def name_max_def
        path_max_def Let_def)
  show ?thesis
    using clone_voice_write_failure_leaks [OF v, of "''ref.wav''" "[7]" "ex_fs\<lparr>disk_full := True\<rparr>"
        "''abc''" ex_zonos ex_audio] d
    by simp
qed

text \<open>C8.  A failure of the speaker embedding (like a failure to decode the
  upload) is answered 400 \<^verbatim>\<open>Error processing audio file\<close>, after the staged
  file has been removed.\<close>

theorem clone_voice_embedding_failure:
  assumes "validate_clone_request req = None" and "up_filename (req_audio req) = Some fn"
    and "up_read (req_audio req) = Inr c"
    and "open_error (dirs s) (upload_path upload_id fn) = None" and "\<not> disk_full s"
    and "ta_load aio (upload_path upload_id fn) c = Inr (wav, sr)"
    and "make_speaker_embedding zm (to_mono wav) sr = Inl e"
  shows "clone_voice (Some zm) aio upload_id req s =
           (HTTPException 400 (''Error processing audio file: '' @ e),
            s\<lparr>files := (files s)(upload_path upload_id fn := None)\<rparr>)"
  using assms
  by (simp add: clone_voice_blocks Let_def open_wb_def write_file_def torchaudio_load_def
      read_file_def cleanup_upload_def os_path_exists_def os_remove_def)

theorem clone_voice_embedding_failure_witness:
  "clone_voice (Some (ex_zonos\<lparr>make_speaker_embedding := (\<lambda>w sr. Inl ''empty clip'')\<rparr>)) ex_audio ''abc''
     ex_request ex_fs =
   (HTTPException 400 (''Error processing audio file: '' @ ''empty clip''),
    ex_fs\<lparr>files := (files ex_fs)(upload_path ''abc'' ''ref.wav'' := None)\<rparr>)"
proof -
  have v: "validate_clone_request ex_request = None"
    by (simp add: validate_clone_request_def py_strip_def py_isspace_def py_startswith_def)
  have d: "open_error (dirs ex_fs) (upload_path ''abc'' ''ref.wav'') = None"
    by (simp add: open_error_def upload_path_def upload_filename_def upload_ext_def name_max_def
        path_max_def Let_def)
  show ?thesis
    using clone_voice_embedding_failure [OF v, of "''ref.wav''" "[7]" ex_fs "''abc''" ex_audio
        "\<lparr>wav_data = [[1, 2], [3, 4]], wav_frames = 2\<rparr>" 16000
        "ex_zonos\<lparr>make_speaker_embedding := (\<lambda>w sr. Inl ''empty clip'')\<rparr>" "''empty clip''"] d
    by simp
qed

text \<open>C9.  A failure anywhere in conditioning, generation or decoding is
  answered 500 \<^verbatim>\<open>Error generating speech\<close>, after the staged file has been
  removed, and no output file is written.\<close>

theorem clone_voice_synthesis_failure:
  assumes "validate_clone_request req = None" and "up_filename (req_audio req) = Some fn"
    and "up_read (req_audio req) = Inr c"
    and "open_error (dirs s) (upload_path upload_id fn) = None" and "\<not> disk_full s"
    and "ta_load aio (upload_path upload_id fn) c = Inr (wav, sr)"
    and "make_speaker_embedding zm (to_mono wav) sr = Inr spk"
    and "decode_speech zm req spk = Inl e"
  shows "clone_voice (Some zm) aio upload_id req s =
           (HTTPException 500 (''Error generating speech: '' @ e),
            s\<lparr>files := (files s)(upload_path upload_id fn := None)\<rparr>)"
  using assms
  by (simp add: clone_voice_blocks Let_def open_wb_def write_file_def torchaudio_load_def
      read_file_def cleanup_upload_def os_path_exists_def os_remove_def)

theorem clone_voice_synthesis_failure_witness:
  "clone_voice (Some (ex_zonos\<lparr>generate := (\<lambda>_. Inl ''CUDA out of memory'')\<rparr>)) ex_audio ''abc''
     ex_request ex_fs =
   (HTTPException 500 (''Error generating speech: '' @ ''CUDA out of memory''),
    ex_fs\<lparr>files := (files ex_fs)(upload_path ''abc'' ''ref.wav'' := None)\<rparr>)"
proof -
  have v: "validate_clone_request ex_request = None"
    by (simp add: validate_clone_request_def py_strip_def py_isspace_def py_startswith_def)
  have d: "open_error (dirs ex_fs) (upload_path ''abc'' ''ref.wav'') = None"
    by (simp add: open_error_def upload_path_def upload_filename_def upload_ext_def name_max_def
        path_max_def Let_def)
  have g: "decode_speech (ex_zonos\<lparr>generate := (\<lambda>_. Inl ''CUDA out of memory'')\<rparr>) ex_request () =
           Inl ''CUDA out of memory''"
    by (simp add: decode_speech_def)
  show ?thesis
    using clone_voice_synthesis_failure [OF v, of "''ref.wav''" "[7]" ex_fs "''abc''" ex_audio
        "\<lparr>wav_data = [[1, 2], [3, 4]], wav_frames = 2\<rparr>" 16000
        "ex_zonos\<lparr>generate := (\<lambda>_. Inl ''CUDA out of memory'')\<rparr>" "()" "''CUDA out of memory''"] d g
    by simp
qed

text \<open>C10.  Validation accepts exactly the requests whose text has a
  non-whitespace character and at most 1000 characters and whose declared
  content type starts with \<^verbatim>\<open>audio/\<close>.\<close>

theorem validate_clone_request_accepts:
  "validate_clone_request req = None \<longleftrightarrow>
     \<not> list_all py_isspace (req_text req) \<and> length (req_text req) \<le> 1000 \<and>
     (\<exists>ct. up_content_type (req_audio req) = Some ct \<and> prefix ''audio/'' ct)"
  by (auto simp: validate_clone_request_def py_strip_empty_iff py_startswith_prefix
      split: option.splits)

text \<open>C28.  An upload whose filename has a slash after its last dot (for
  instance \<^verbatim>\<open>voice.d/sample\<close>) passes validation, but its staging name
  \<^verbatim>\<open>uploads/upload_<token>.d/sample\<close> lies in a directory that does not
  exist: \<^verbatim>\<open>open\<close> raises \<^verbatim>\<open>FileNotFoundError\<close>, the request is answered
  500 \<^verbatim>\<open>Unexpected error\<close> rather than 400, and nothing is written.  (The
  name is assumed free of NUL characters and short enough for the kernel;
  otherwise \<^verbatim>\<open>open\<close> fails earlier, with another message.)\<close>

theorem clone_voice_slash_extension:
  assumes "validate_clone_request req = None" and "up_filename (req_audio req) = Some fn"
    and "CHR ''/'' \<in> set (upload_ext fn)" and "\<forall>d\<in>dirs s. \<not> prefix ''uploads/'' d"
    and "CHR 0x00 \<notin> set (upload_path upload_id fn)"
    and "utf8_length (upload_path upload_id fn) \<le> name_max"
  shows "clone_voice (Some zm) aio upload_id req s =
           (HTTPException 500 (''Unexpected error: '' @ enoent (upload_path upload_id fn)), s)"
proof -
  have "open_error (dirs s) (upload_path upload_id fn) = Some (enoent (upload_path upload_id fn))"
    using assms(3,5,6,4) by (rule open_error_upload_path_slash)
  with assms(1,2) show ?thesis
    by (simp add: clone_voice_def clone_voice_body_def stage_upload_def outer_except_def open_wb_def)
qed

theorem clone_voice_slash_extension_witness:
  "clone_voice (Some ex_zonos) ex_audio ''abc''
     (ex_request\<lparr>req_audio := ex_upload\<lparr>up_filename := Some ''voice.d/sample''\<rparr>\<rparr>) ex_fs =
   (HTTPException 500 (''Unexpected error: '' @ enoent (upload_path ''abc'' ''voice.d/sample'')), ex_fs)"
proof (rule clone_voice_slash_extension)
  show "validate_clone_request (ex_request\<lparr>req_audio := ex_upload\<lparr>up_filename := Some ''voice.d/sample''\<rparr>\<rparr>) = None"
    by (simp add: clone_voice_eval)
  show "CHR ''/'' \<in> set (upload_ext ''voice.d/sample'')"
    by (simp add: upload_ext_def)
  show "CHR 0x00 \<notin> set (upload_path ''abc'' ''voice.d/sample'')"
    by (simp add: upload_path_def upload_filename_def upload_ext_def)
  show "utf8_length (upload_path ''abc'' ''voice.d/sample'') \<le> name_max"
    by (simp add: upload_path_def upload_filename_def upload_ext_def name_max_def)
qed simp_all

text \<open>C29.  The extension is taken from the client's filename unchecked: when
  it makes the staging name \<^verbatim>\<open>upload_<token>.<ext>\<close> longer than the 255
  bytes Linux allows for a name, \<^verbatim>\<open>open\<close> raises \<^verbatim>\<open>OSError\<close>
  \<^verbatim>\<open>ENAMETOOLONG\<close> and the request is answered 500 \<^verbatim>\<open>Unexpected error\<close>, not
  400, with nothing written.\<close>

theorem clone_voice_long_extension:
  assumes "validate_clone_request req = None" and "up_filename (req_audio req) = Some fn"
    and "CHR ''/'' \<notin> set upload_id" and "CHR ''/'' \<notin> set (upload_ext fn)"
    and "CHR 0x00 \<notin> set (upload_path upload_id fn)" and "''uploads'' \<in> dirs s"
    and "name_max < utf8_length (upload_filename upload_id fn)"
  shows "clone_voice (Some zm) aio upload_id req s =
           (HTTPException 500 (''Unexpected error: '' @ enametoolong (upload_path upload_id fn)), s)"
proof -
  have "open_error (dirs s) (upload_path upload_id fn) = Some (enametoolong (upload_path upload_id fn))"
    using assms(3-7) by (simp add: open_error_upload_path)
  with assms(1,2) show ?thesis
    by (simp add: clone_voice_def clone_voice_body_def stage_upload_def outer_except_def open_wb_def)
qed

theorem clone_voice_long_extension_witness:
  "clone_voice (Some ex_zonos) ex_audio ''abc''
     (ex_request\<lparr>req_audio := ex_upload\<lparr>up_filename := Some (''a.'' @ replicate 250 CHR ''w'')\<rparr>\<rparr>) ex_fs =
   (HTTPException 500 (''Unexpected error: '' @ enametoolong (upload_path ''abc'' (''a.'' @ replicate 250 CHR ''w''))),
    ex_fs)"
proof (rule clone_voice_long_extension)
  have ext: "upload_ext (CHR ''a'' # CHR ''.'' # replicate 250 CHR ''w'') = replicate 250 CHR ''w''"
    by (simp add: upload_ext_def py_split_no_sep_eq)
  show "validate_clone_request
          (ex_request\<lparr>req_audio := ex_upload\<lparr>up_filename := Some (''a.'' @ replicate 250 CHR ''w'')\<rparr>\<rparr>) = None"
    by (simp add: clone_voice_eval)
  show "CHR ''/'' \<notin> set (upload_ext (''a.'' @ replicate 250 CHR ''w''))"
    by (simp add: ext)
  show "CHR 0x00 \<notin> set (upload_path ''abc'' (''a.'' @ replicate 250 CHR ''w''))"
    by (simp add: ext upload_path_def upload_filename_def)
  show "name_max < utf8_length (upload_filename ''abc'' (''a.'' @ replicate 250 CHR ''w''))"
    by (simp add: ext upload_filename_def name_max_def utf8_length_def sum_list_replicate)
qed (simp_all add: ext)

text \<open>C30.  Temperature and top-p are passed through unchecked: a
  successful response echoes the request's values, and the same request with
  any other values, outside the ranges 0.1-2.0 and 0.1-1.0 that the form
  descriptions of lines 77-78 announce included, passes validation too.\<close>

lemma validate_clone_request_params:
  "validate_clone_request (req\<lparr>req_temperature := x, req_top_p := y\<rparr>) = validate_clone_request req"
  by (simp add: validate_clone_request_def)

theorem clone_params_pass_through:
  assumes "clone_voice m aio upload_id req s = (Reply resp, s')"
  shows "param_temperature resp = req_temperature req \<and> param_top_p resp = req_top_p req \<and>
         (\<forall>x y. validate_clone_request (req\<lparr>req_temperature := x, req_top_p := y\<rparr>) = None)"
  using assms
  by (auto simp: clone_voice_Reply synthesize_Inr clone_result_def validate_clone_request_params)

theorem clone_params_pass_through_witness:
  "param_temperature (clone_result ''abc'' ex_request 2 2) = 1 \<and>
   param_top_p (clone_result ''abc'' ex_request 2 2) = 9 / 10 \<and>
   validate_clone_request (ex_request\<lparr>req_temperature := -5, req_top_p := 3\<rparr>) = None"
proof -
  have "clone_voice (Some ex_zonos) ex_audio ''abc'' ex_request ex_fs =
          (Reply (clone_result ''abc'' ex_request 2 2), ex_fs\<lparr>files := [output_path ''abc'' \<mapsto> [1, 2]]\<rparr>)"
    by (simp add: clone_voice_eval)
  from clone_params_pass_through [OF this] show ?thesis by simp
qed

end
