(* ===== verification/AudioFiles.thy ===== *)
theory AudioFiles
  imports CloneVoice
begin

text \<open>
  The two handlers of \<^verbatim>\<open>src/main.py\<close> for generated files:
  \<^verbatim>\<open>get_audio\<close> (lines 175-185) checks that \<^verbatim>\<open>generated/<filename>\<close> exists
  and returns a \<^verbatim>\<open>FileResponse\<close>, which Starlette reads only later, when the
  response is sent (\<open>send_file\<close>, a model of \<^verbatim>\<open>FileResponse.__call__\<close>: the
  file is looked up again and a missing one raises \<^verbatim>\<open>RuntimeError\<close>);
  \<^verbatim>\<open>delete_audio\<close> (lines 187-197) checks existence and removes the file.
  The lemmas show the idempotence the spec asks of deletion (success, then
  404, and a later fetch is 404).  Both handlers are shadowed by the static
  mount (theory \<open>Routing\<close>), so over HTTP they are never reached.
\<close>

record file_response =
  fr_path :: path
  fr_media_type :: string
  fr_filename :: string

definition get_audio :: "fs \<Rightarrow> string \<Rightarrow> file_response reply" where
  "get_audio s filename =
     (let p = generated_path filename in
      if \<not> os_path_exists s p then HTTPException 404 ''Audio file not found''
      else Reply \<lparr>fr_path = p, fr_media_type = ''audio/wav'', fr_filename = filename\<rparr>)"

definition send_file :: "fs \<Rightarrow> file_response \<Rightarrow> bytes py" where
  "send_file s fr =
     (case files s (fr_path fr) of
        Some b \<Rightarrow> Inr b
      | None \<Rightarrow>
          Inl (''File at path '' @ fr_path fr @
               (if fr_path fr \<in> dirs s then '' is not a file.'' else '' does not exist.'')))"

definition delete_audio :: "fs \<Rightarrow> string \<Rightarrow> string reply \<times> fs" where
  "delete_audio s filename =
     (let p = generated_path filename in
      if \<not> os_path_exists s p then (HTTPException 404 ''Audio file not found'', s)
      else (case os_remove s p of
              Inl e \<Rightarrow> (HTTPException 500 (''Error deleting file: '' @ e), s)
            | Inr s' \<Rightarrow> (Reply (''Audio file '' @ filename @ '' deleted successfully''), s')))"

subsection \<open>Effects\<close>

lemma delete_audio_file:
  assumes "files s (generated_path f) = Some b"
  shows "delete_audio s f =
           (Reply (''Audio file '' @ f @ '' deleted successfully''),
            s\<lparr>files := (files s)(generated_path f := None)\<rparr>)"
  using assms by (simp add: delete_audio_def os_path_exists_def os_remove_def)

lemma delete_audio_missing:
  assumes "files s (generated_path f) = None" and "generated_path f \<notin> dirs s"
  shows "delete_audio s f = (HTTPException 404 ''Audio file not found'', s)"
  using assms by (simp add: delete_audio_def os_path_exists_def)

lemma get_audio_missing:
  assumes "files s (generated_path f) = None" and "generated_path f \<notin> dirs s"
  shows "get_audio s f = HTTPException 404 ''Audio file not found''"
  using assms by (simp add: get_audio_def os_path_exists_def)

subsection \<open>Properties\<close>

text \<open>C11.  Deleting an existing generated file twice succeeds and then
  answers 404 without touching the file system again, and fetching it after
  the deletion answers 404.\<close>

theorem delete_audio_idempotent:
  assumes "files s (generated_path f) = Some b" and "generated_path f \<notin> dirs s"
  shows "fst (delete_audio s f) = Reply (''Audio file '' @ f @ '' deleted successfully'') \<and>
         delete_audio (snd (delete_audio s f)) f =
           (HTTPException 404 ''Audio file not found'', snd (delete_audio s f)) \<and>
         get_audio (snd (delete_audio s f)) f = HTTPException 404 ''Audio file not found''"
proof -
  let ?s1 = "s\<lparr>files := (files s)(generated_path f := None)\<rparr>"
  have d1: "delete_audio s f = (Reply (''Audio file '' @ f @ '' deleted successfully''), ?s1)"
    using assms(1) by (rule delete_audio_file)
  have "files ?s1 (generated_path f) = None" and "generated_path f \<notin> dirs ?s1"
    using assms(2) by simp_all
  with d1 show ?thesis
    by (simp add: delete_audio_missing get_audio_missing)
qed

theorem delete_audio_idempotent_witness:
  "fst (delete_audio \<lparr>files = [''generated/generated_abc.wav'' \<mapsto> [1, 2]], dirs = {''generated''}, disk_full = False\<rparr>
          ''generated_abc.wav'') = Reply (''Audio file generated_abc.wav deleted successfully'') \<and>
   get_audio (snd (delete_audio \<lparr>files = [''generated/generated_abc.wav'' \<mapsto> [1, 2]],
                                 dirs = {''generated''}, disk_full = False\<rparr> ''generated_abc.wav'')) ''generated_abc.wav''
     = HTTPException 404 ''Audio file not found''"
  using delete_audio_idempotent
      [of "\<lparr>files = [''generated/generated_abc.wav'' \<mapsto> [1, 2]], dirs = {''generated''}, disk_full = False\<rparr>"
          "''generated_abc.wav''" "[1, 2]"]
  by (simp add: generated_path_def)

end
