(* ===== verification/Concurrency.thy ===== *)
theory Concurrency
  imports AudioFiles
begin

text \<open>
  Concurrent requests.  \<^verbatim>\<open>clone_voice\<close> is a coroutine: it can be
  suspended only at its \<^verbatim>\<open>await\<close>s, which are all in the staging block
  (\<^verbatim>\<open>aiofiles.open\<close>, \<^verbatim>\<open>reference_audio.read()\<close> and \<^verbatim>\<open>f.write\<close>,
  lines 101-103); from line 105 to the end the handler runs without
  suspension, since the model and torchaudio calls are synchronous.  So a
  request is a sequence of atomic segments: \<open>cv_open\<close> (checks, token, name
  and opening the staging file, lines 95-101), the read (102), the write
  (103) and \<open>cv_finish\<close> (105-168).  Lemma \<open>clone_voice_body_segments\<close>
  shows that running the segments back to back is the handler of
  \<open>CloneVoice\<close>.  \<open>sys_step\<close> interleaves the segments of any number of
  requests, each with a fresh 36-character token as \<^verbatim>\<open>str(uuid.uuid4())\<close>
  gives, with deletions of generated files and with the environment filling
  or freeing the device (\<open>disk_space\<close>), so that a write may fail.  Requests
  refused before the staging file is opened change no file (theorem
  \<open>clone_voice_only_output\<close>) and are left out.  The ghost variable
  \<open>sys_leaked\<close> collects the staging files of requests whose read or write
  failed.  The invariant \<open>sys_inv\<close> says which staged files exist: exactly
  those of requests in flight and those left by failed reads and writes.
\<close>

definition cv_open :: "string \<Rightarrow> upload_file \<Rightarrow> fs \<Rightarrow> (exn + path) \<times> fs" where
  "cv_open upload_id up s =
     (case up_filename up of
        None \<Rightarrow>
          (Inl (PyExc (py_quote ''NoneType'' @ '' object has no attribute '' @ py_quote ''split'')), s)
      | Some fn \<Rightarrow>
          (let p = upload_path upload_id fn in
           case open_wb s p of
             Inl e \<Rightarrow> (Inl (PyExc e), s)
           | Inr s1 \<Rightarrow> (Inr p, s1)))"

definition cv_finish ::
  "('spk, 'cd, 'cond, 'codes) zonos \<Rightarrow> audio_backend \<Rightarrow> string \<Rightarrow> clone_request \<Rightarrow>
   fs \<Rightarrow> path \<Rightarrow> (exn + clone_response) \<times> fs" where
  "cv_finish zm aio upload_id req s p =
     (case load_reference zm aio s p of
        (Inl x, s2) \<Rightarrow> (Inl x, s2)
      | (Inr spk, s2) \<Rightarrow> synthesize zm aio upload_id req s2 p spk)"

datatype cv_phase = Opened | ReadDone bytes | Written

record cv_task =
  task_req :: clone_request
  task_token :: string
  task_path :: path
  task_phase :: cv_phase

record sys =
  sys_fs :: fs
  sys_tasks :: "nat \<Rightarrow> cv_task option"
  sys_tokens :: "string set"
  sys_leaked :: "path set"

inductive sys_step ::
  "('spk, 'cd, 'cond, 'codes) zonos \<Rightarrow> audio_backend \<Rightarrow> sys \<Rightarrow> sys \<Rightarrow> bool"
  for zm aio where
  begin_req:
    "\<lbrakk>sys_tasks S i = None; tok \<notin> sys_tokens S; length tok = 36;
      validate_clone_request req = None;
      cv_open tok (req_audio req) (sys_fs S) = (Inr p, s1)\<rbrakk> \<Longrightarrow>
     sys_step zm aio S
       (S\<lparr>sys_fs := s1,
          sys_tasks := (sys_tasks S)(i \<mapsto> \<lparr>task_req = req, task_token = tok, task_path = p,
                                           task_phase = Opened\<rparr>),
          sys_tokens := insert tok (sys_tokens S)\<rparr>)"
| read_ok:
    "\<lbrakk>sys_tasks S i = Some t; task_phase t = Opened; up_read (req_audio (task_req t)) = Inr c\<rbrakk> \<Longrightarrow>
     sys_step zm aio S (S\<lparr>sys_tasks := (sys_tasks S)(i \<mapsto> t\<lparr>task_phase := ReadDone c\<rparr>)\<rparr>)"
| read_fail:
    "\<lbrakk>sys_tasks S i = Some t; task_phase t = Opened; up_read (req_audio (task_req t)) = Inl e\<rbrakk> \<Longrightarrow>
     sys_step zm aio S
       (S\<lparr>sys_tasks := (sys_tasks S)(i := None), sys_leaked := insert (task_path t) (sys_leaked S)\<rparr>)"
| write_ok:
    "\<lbrakk>sys_tasks S i = Some t; task_phase t = ReadDone c; write_file (sys_fs S) (task_path t) c = Inr s'\<rbrakk> \<Longrightarrow>
     sys_step zm aio S (S\<lparr>sys_fs := s', sys_tasks := (sys_tasks S)(i \<mapsto> t\<lparr>task_phase := Written\<rparr>)\<rparr>)"
| write_fail:
    "\<lbrakk>sys_tasks S i = Some t; task_phase t = ReadDone c; write_file (sys_fs S) (task_path t) c = Inl e\<rbrakk> \<Longrightarrow>
     sys_step zm aio S
       (S\<lparr>sys_tasks := (sys_tasks S)(i := None), sys_leaked := insert (task_path t) (sys_leaked S)\<rparr>)"
| finish:
    "\<lbrakk>sys_tasks S i = Some t; task_phase t = Written;
      cv_finish zm aio (task_token t) (task_req t) (sys_fs S) (task_path t) = (r, s')\<rbrakk> \<Longrightarrow>
     sys_step zm aio S (S\<lparr>sys_fs := s', sys_tasks := (sys_tasks S)(i := None)\<rparr>)"
| delete_file:
    "delete_audio (sys_fs S) f = (r, s') \<Longrightarrow> sys_step zm aio S (S\<lparr>sys_fs := s'\<rparr>)"
| disk_space:
    "sys_step zm aio S (S\<lparr>sys_fs := (sys_fs S)\<lparr>disk_full := b\<rparr>\<rparr>)"

inductive_cases sys_step_cases: "sys_step zm aio S S'"

definition sys_init :: "fs \<Rightarrow> sys" where
  "sys_init s = \<lparr>sys_fs = s, sys_tasks = Map.empty, sys_tokens = {}, sys_leaked = {}\<rparr>"

definition no_staged :: "fs \<Rightarrow> bool" where
  "no_staged s \<longleftrightarrow> (\<forall>q. prefix ''uploads/'' q \<longrightarrow> files s q = None)"

inductive sys_reach ::
  "('spk, 'cd, 'cond, 'codes) zonos \<Rightarrow> audio_backend \<Rightarrow> sys \<Rightarrow> bool"
  for zm aio where
  init: "no_staged s \<Longrightarrow> sys_reach zm aio (sys_init s)"
| step: "sys_reach zm aio S \<Longrightarrow> sys_step zm aio S S' \<Longrightarrow> sys_reach zm aio S'"

definition in_flight :: "sys \<Rightarrow> path \<Rightarrow> bool" where
  "in_flight S q \<longleftrightarrow> (\<exists>i t. sys_tasks S i = Some t \<and> task_path t = q)"

definition staged_by :: "string set \<Rightarrow> path \<Rightarrow> bool" where
  "staged_by toks q \<longleftrightarrow> (\<exists>tok fn. tok \<in> toks \<and> length tok = 36 \<and> q = upload_path tok fn)"

definition sys_inv :: "sys \<Rightarrow> bool" where
  "sys_inv S \<longleftrightarrow>
     (\<forall>i t. sys_tasks S i = Some t \<longrightarrow>
        task_token t \<in> sys_tokens S \<and> length (task_token t) = 36 \<and>
        (\<exists>fn. task_path t = upload_path (task_token t) fn)) \<and>
     (\<forall>i j ti tj. sys_tasks S i = Some ti \<longrightarrow> sys_tasks S j = Some tj \<longrightarrow> i \<noteq> j \<longrightarrow>
        task_token ti \<noteq> task_token tj) \<and>
     (\<forall>q \<in> sys_leaked S. staged_by (sys_tokens S) q \<and> \<not> in_flight S q) \<and>
     (\<forall>q. prefix ''uploads/'' q \<longrightarrow>
        (files (sys_fs S) q \<noteq> None \<longleftrightarrow> q \<in> sys_leaked S \<or> in_flight S q))"


subsection \<open>The segments\<close>

subsection \<open>A concrete interleaving\<close>

text \<open>Two requests with the tokens \<open>ex_tok_a\<close> and \<open>ex_tok_b\<close> begin on
  \<open>ex_fs\<close>; the second one's read fails.  \<open>ex_S1\<close>, \<open>ex_S2\<close> and \<open>ex_S3\<close> are
  the states after each step.\<close>

abbreviation ex_tok_a :: string where "ex_tok_a \<equiv> replicate 36 CHR ''a''"

abbreviation ex_tok_b :: string where "ex_tok_b \<equiv> replicate 36 CHR ''b''"

abbreviation ex_bad_request :: clone_request where
  "ex_bad_request \<equiv> ex_request\<lparr>req_audio := ex_upload\<lparr>up_read := Inl ''connection reset''\<rparr>\<rparr>"

abbreviation ex_task :: "string \<Rightarrow> clone_request \<Rightarrow> cv_task" where
  "ex_task tok req \<equiv> \<lparr>task_req = req, task_token = tok, task_path = upload_path tok ''ref.wav'',
                       task_phase = Opened\<rparr>"

abbreviation ex_begin :: "sys \<Rightarrow> nat \<Rightarrow> string \<Rightarrow> clone_request \<Rightarrow> sys" where
  "ex_begin S i tok req \<equiv>
     S\<lparr>sys_fs := sys_fs S\<lparr>files := (files (sys_fs S))(upload_path tok ''ref.wav'' \<mapsto> [])\<rparr>,
       sys_tasks := (sys_tasks S)(i \<mapsto> ex_task tok req),
       sys_tokens := insert tok (sys_tokens S)\<rparr>"

abbreviation ex_S1 :: sys where "ex_S1 \<equiv> ex_begin (sys_init ex_fs) 0 ex_tok_a ex_request"

abbreviation ex_S2 :: sys where "ex_S2 \<equiv> ex_begin ex_S1 1 ex_tok_b ex_bad_request"

text \<open>In \<open>ex_W1\<close>, \<open>ex_W2\<close> and \<open>ex_W3\<close> the first request reads its upload,
  the device fills up, and its write fails.\<close>

abbreviation ex_W1 :: sys where
  "ex_W1 \<equiv> ex_S1\<lparr>sys_tasks := (sys_tasks ex_S1)(0 \<mapsto> (ex_task ex_tok_a ex_request)\<lparr>task_phase := ReadDone [7]\<rparr>)\<rparr>"

abbreviation ex_W2 :: sys where
  "ex_W2 \<equiv> ex_W1\<lparr>sys_fs := (sys_fs ex_W1)\<lparr>disk_full := True\<rparr>\<rparr>"

abbreviation ex_W3 :: sys where
  "ex_W3 \<equiv> ex_W2\<lparr>sys_tasks := (sys_tasks ex_W2)(0 := None),
                   sys_leaked := insert (upload_path ex_tok_a ''ref.wav'') (sys_leaked ex_W2)\<rparr>"

abbreviation ex_S3 :: sys where
  "ex_S3 \<equiv> ex_S2\<lparr>sys_tasks := (sys_tasks ex_S2)(1 := None),
                   sys_leaked := insert (task_path (ex_task ex_tok_b ex_bad_request)) (sys_leaked ex_S2)\<rparr>"

subsection \<open>Opening the staging file\<close>

lemma cv_open_Inr:
  "cv_open tok up s = (Inr p, s1) \<longleftrightarrow>
     (\<exists>fn. up_filename up = Some fn \<and> p = upload_path tok fn \<and> open_error (dirs s) p = None \<and>
        s1 = s\<lparr>files := (files s)(p \<mapsto> [])\<rparr>)"
  by (auto simp: cv_open_def Let_def open_wb_def split: option.splits)

lemma cv_finish_effect:
  assumes "cv_finish zm aio tok req s p = (r, s')" and "p \<noteq> output_path tok"
  shows "\<exists>v. files s' = ((files s)(p := None))(output_path tok := v)"
proof (cases "load_reference zm aio s p")
  case (Pair r2 s2)
  from load_reference_cases [OF this] show ?thesis
  proof
    assume "\<exists>spk. r2 = Inr spk \<and> s2 = s"
    then obtain spk where "r2 = Inr spk" and "s2 = s" by blast
    with Pair assms(1) have "synthesize zm aio tok req s p spk = (r, s')"
      by (simp add: cv_finish_def)
    from synthesize_effect [OF this assms(2)] show ?thesis by blast
  next
    assume l: "isl r2 \<and> files s2 = (files s)(p := None) \<and> dirs s2 = dirs s"
    then obtain x where "r2 = Inl x" by (cases r2) auto
    with Pair assms(1) have "s' = s2" by (simp add: cv_finish_def)
    with l assms(2)
    have "files s' = ((files s)(p := None))(output_path tok := files s (output_path tok))"
      by (simp add: fun_upd_idem)
    then show ?thesis by blast
  qed
qed


lemma delete_audio_effect:
  "delete_audio s f = (r, s') \<Longrightarrow>
     files s' = files s \<or> files s' = (files s)(generated_path f := None)"
  by (auto simp: delete_audio_def Let_def os_remove_Inr split: if_splits sum.splits)

subsection \<open>Staged names\<close>

lemma prefix_upload_path [simp]: "prefix ''uploads/'' (upload_path tok fn)"
  by (simp add: upload_path_def)

lemma not_prefix_output_path [simp]: "\<not> prefix ''uploads/'' (output_path tok)"
  by (simp add: output_path_def)

lemma not_prefix_generated_path [simp]: "\<not> prefix ''uploads/'' (generated_path f)"
  by (simp add: generated_path_def)

lemma upload_path_token_neq:
  "length a = 36 \<Longrightarrow> length b = 36 \<Longrightarrow> a \<noteq> b \<Longrightarrow> upload_path a f \<noteq> upload_path b g"
  using upload_path_inj by fastforce

lemma sys_inv_task:
  "sys_inv S \<Longrightarrow> sys_tasks S i = Some t \<Longrightarrow>
     task_token t \<in> sys_tokens S \<and> length (task_token t) = 36 \<and>
     (\<exists>fn. task_path t = upload_path (task_token t) fn)"
  by (simp add: sys_inv_def)

lemma sys_inv_paths_distinct:
  assumes "sys_inv S" and "sys_tasks S i = Some ti" and "sys_tasks S j = Some tj" and "i \<noteq> j"
  shows "task_path ti \<noteq> task_path tj"
proof -
  from assms have "task_token ti \<noteq> task_token tj"
    by (simp add: sys_inv_def)
  with sys_inv_task [OF assms(1,2)] sys_inv_task [OF assms(1,3)] show ?thesis
    by (auto dest: upload_path_token_neq)
qed

lemma sys_inv_files:
  "sys_inv S \<Longrightarrow> prefix ''uploads/'' q \<Longrightarrow>
     files (sys_fs S) q \<noteq> None \<longleftrightarrow> q \<in> sys_leaked S \<or> in_flight S q"
  by (simp add: sys_inv_def)

lemma sys_inv_leaked:
  "sys_inv S \<Longrightarrow> q \<in> sys_leaked S \<Longrightarrow> staged_by (sys_tokens S) q \<and> \<not> in_flight S q"
  by (simp add: sys_inv_def)

lemma staged_by_insert [intro]: "staged_by toks q \<Longrightarrow> staged_by (insert tok toks) q"
  by (auto simp: staged_by_def)

subsection \<open>Every step keeps the invariant\<close>

lemma sys_inv_begin:
  assumes inv: "sys_inv S" and free: "sys_tasks S i = None" and fresh: "tok \<notin> sys_tokens S"
    and len: "length tok = 36" and op: "cv_open tok (req_audio req) (sys_fs S) = (Inr p, s1)"
  shows "sys_inv (S\<lparr>sys_fs := s1,
            sys_tasks := (sys_tasks S)(i \<mapsto> \<lparr>task_req = req, task_token = tok, task_path = p,
                                             task_phase = Opened\<rparr>),
            sys_tokens := insert tok (sys_tokens S)\<rparr>)"
    (is "sys_inv ?S'")
proof -
  from op obtain fn where p: "p = upload_path tok fn"
    and s1: "files s1 = (files (sys_fs S))(p \<mapsto> [])"
    by (auto simp: cv_open_Inr)
  have old_ne: "task_path t \<noteq> p" if "sys_tasks S j = Some t" for j t
    using sys_inv_task [OF inv that] fresh len p by (auto dest: upload_path_token_neq)
  have leak_ne: "q \<noteq> p" if "q \<in> sys_leaked S" for q
    using sys_inv_leaked [OF inv that] fresh len p
    by (auto simp: staged_by_def dest: upload_path_token_neq)
  have fl: "in_flight ?S' q \<longleftrightarrow> q = p \<or> in_flight S q" for q
    using free unfolding in_flight_def by (auto simp: fun_upd_apply) (metis option.distinct(1))
  have c1: "\<forall>j t. sys_tasks ?S' j = Some t \<longrightarrow> task_token t \<in> sys_tokens ?S' \<and>
              length (task_token t) = 36 \<and> (\<exists>fn. task_path t = upload_path (task_token t) fn)"
    using inv len p by (auto simp: sys_inv_def)
  have c2: "\<forall>j k tj tk. sys_tasks ?S' j = Some tj \<longrightarrow> sys_tasks ?S' k = Some tk \<longrightarrow> j \<noteq> k \<longrightarrow>
              task_token tj \<noteq> task_token tk"
    using inv fresh free by (auto simp: sys_inv_def)
  have c3: "\<forall>q \<in> sys_leaked ?S'. staged_by (sys_tokens ?S') q \<and> \<not> in_flight ?S' q"
    using inv leak_ne by (auto simp: sys_inv_def fl)
  have c4: "\<forall>q. prefix ''uploads/'' q \<longrightarrow>
              (files (sys_fs ?S') q \<noteq> None \<longleftrightarrow> q \<in> sys_leaked ?S' \<or> in_flight ?S' q)"
    using inv s1 by (auto simp: sys_inv_def fl)
  from c1 c2 c3 c4 show ?thesis unfolding sys_inv_def by blast
qed


lemma in_flight_retask:
  assumes "sys_tasks S i = Some t" and "task_path t' = task_path t"
    and "sys_tasks S' = (sys_tasks S)(i \<mapsto> t')"
  shows "in_flight S' q \<longleftrightarrow> in_flight S q"
proof
  assume "in_flight S' q"
  then obtain j u where "sys_tasks S' j = Some u" and "task_path u = q"
    by (auto simp: in_flight_def)
  with assms show "in_flight S q"
    unfolding in_flight_def by (cases "j = i") auto
next
  assume "in_flight S q"
  then obtain j u where "sys_tasks S j = Some u" and "task_path u = q"
    by (auto simp: in_flight_def)
  with assms show "in_flight S' q"
    unfolding in_flight_def by (intro exI [of _ j]) (cases "j = i"; auto)
qed

lemma in_flight_remove:
  assumes "sys_inv S" and "sys_tasks S i = Some t" and "sys_tasks S' = (sys_tasks S)(i := None)"
  shows "in_flight S' q \<longleftrightarrow> in_flight S q \<and> q \<noteq> task_path t"
proof
  assume "in_flight S' q"
  then obtain j u where "sys_tasks S' j = Some u" and "task_path u = q"
    by (auto simp: in_flight_def)
  with assms sys_inv_paths_distinct [OF assms(1)] show "in_flight S q \<and> q \<noteq> task_path t"
    unfolding in_flight_def by (cases "j = i") fastforce+
next
  assume a: "in_flight S q \<and> q \<noteq> task_path t"
  then obtain j u where "sys_tasks S j = Some u" and "task_path u = q"
    by (auto simp: in_flight_def)
  with a assms show "in_flight S' q"
    unfolding in_flight_def by (intro exI [of _ j]) (cases "j = i"; auto)
qed

lemma in_flight_task: "sys_tasks S i = Some t \<Longrightarrow> in_flight S (task_path t)"
  by (auto simp: in_flight_def)

text \<open>A step that advances one request and keeps every staged file present
  or absent keeps the invariant.\<close>

lemma sys_inv_retask:
  assumes inv: "sys_inv S" and ti: "sys_tasks S i = Some t"
    and tok: "task_token t' = task_token t" and p: "task_path t' = task_path t"
    and fs: "\<forall>q. prefix ''uploads/'' q \<longrightarrow> (files s' q \<noteq> None \<longleftrightarrow> files (sys_fs S) q \<noteq> None)"
  shows "sys_inv (S\<lparr>sys_fs := s', sys_tasks := (sys_tasks S)(i \<mapsto> t')\<rparr>)" (is "sys_inv ?S'")
proof -
  have fl: "in_flight ?S' q \<longleftrightarrow> in_flight S q" for q
    using ti p by (rule in_flight_retask) simp
  have c1: "\<forall>j u. sys_tasks ?S' j = Some u \<longrightarrow> task_token u \<in> sys_tokens ?S' \<and>
              length (task_token u) = 36 \<and> (\<exists>fn. task_path u = upload_path (task_token u) fn)"
    using inv sys_inv_task [OF inv ti] tok p by (auto simp: sys_inv_def)
  have c2: "\<forall>j k tj tk. sys_tasks ?S' j = Some tj \<longrightarrow> sys_tasks ?S' k = Some tk \<longrightarrow> j \<noteq> k \<longrightarrow>
              task_token tj \<noteq> task_token tk"
    using inv ti tok unfolding sys_inv_def by (simp add: fun_upd_apply)
  have c3: "\<forall>q \<in> sys_leaked ?S'. staged_by (sys_tokens ?S') q \<and> \<not> in_flight ?S' q"
    using inv by (simp add: sys_inv_def fl)
  have c4: "\<forall>q. prefix ''uploads/'' q \<longrightarrow>
              (files (sys_fs ?S') q \<noteq> None \<longleftrightarrow> q \<in> sys_leaked ?S' \<or> in_flight ?S' q)"
    using inv fs by (simp add: sys_inv_def fl)
  from c1 c2 c3 c4 show ?thesis unfolding sys_inv_def by blast
qed

text \<open>A request leaves the system; its staged file is either removed
  (\<open>gone\<close>) or recorded as leaked.\<close>

lemma sys_inv_remove:
  assumes inv: "sys_inv S" and ti: "sys_tasks S i = Some t"
    and L: "L = (if gone then sys_leaked S else insert (task_path t) (sys_leaked S))"
    and fs: "\<forall>q. prefix ''uploads/'' q \<longrightarrow>
               files s' q = (if q = task_path t \<and> gone then None else files (sys_fs S) q)"
  shows "sys_inv (S\<lparr>sys_fs := s', sys_tasks := (sys_tasks S)(i := None), sys_leaked := L\<rparr>)"
    (is "sys_inv ?S'")
proof -
  have fl: "sys_tasks S'' = (sys_tasks S)(i := None) \<Longrightarrow>
             in_flight S'' q \<longleftrightarrow> in_flight S q \<and> q \<noteq> task_path t" for S'' q
    using inv ti by (rule in_flight_remove)
  have fp: "in_flight S (task_path t)"
    using ti by (rule in_flight_task)
  have st: "staged_by (sys_tokens S) (task_path t)" and pre: "prefix ''uploads/'' (task_path t)"
    using sys_inv_task [OF inv ti] by (auto simp: staged_by_def)
  have c1: "\<forall>j u. sys_tasks ?S' j = Some u \<longrightarrow> task_token u \<in> sys_tokens ?S' \<and>
              length (task_token u) = 36 \<and> (\<exists>fn. task_path u = upload_path (task_token u) fn)"
    using inv by (simp add: sys_inv_def)
  have c2: "\<forall>j k tj tk. sys_tasks ?S' j = Some tj \<longrightarrow> sys_tasks ?S' k = Some tk \<longrightarrow> j \<noteq> k \<longrightarrow>
              task_token tj \<noteq> task_token tk"
    using inv by (simp add: sys_inv_def)
  have c3: "\<forall>q \<in> sys_leaked ?S'. staged_by (sys_tokens ?S') q \<and> \<not> in_flight ?S' q"
    using inv st unfolding L by (auto simp: sys_inv_def fl)
  have c4: "\<forall>q. prefix ''uploads/'' q \<longrightarrow>
              (files (sys_fs ?S') q \<noteq> None \<longleftrightarrow> q \<in> sys_leaked ?S' \<or> in_flight ?S' q)"
    using inv fs fp pre unfolding L by (auto simp: sys_inv_def fl)
  from c1 c2 c3 c4 show ?thesis unfolding sys_inv_def by blast
qed


lemma sys_inv_fs:
  assumes "sys_inv S" and "\<forall>q. prefix ''uploads/'' q \<longrightarrow> files s' q = files (sys_fs S) q"
  shows "sys_inv (S\<lparr>sys_fs := s'\<rparr>)"
  using assms by (simp add: sys_inv_def in_flight_def)

lemma sys_step_inv:
  assumes "sys_step zm aio S S'" and "sys_inv S"
  shows "sys_inv S'"
  using assms
proof (induction rule: sys_step.induct)
  case (begin_req S i tok req p s1)
  from begin_req.prems begin_req.hyps(1,2,3,5) show ?case by (rule sys_inv_begin)
next
  case (read_ok S i t c)
  have "sys_inv (S\<lparr>sys_fs := sys_fs S, sys_tasks := (sys_tasks S)(i \<mapsto> t\<lparr>task_phase := ReadDone c\<rparr>)\<rparr>)"
    using read_ok by (intro sys_inv_retask) simp_all
  then show ?case by simp
next
  case (read_fail S i t e)
  have "sys_inv (S\<lparr>sys_fs := sys_fs S, sys_tasks := (sys_tasks S)(i := None),
                   sys_leaked := insert (task_path t) (sys_leaked S)\<rparr>)"
    using read_fail by (intro sys_inv_remove [where gone = False]) simp_all
  then show ?case by simp
next
  case (write_ok S i t c s')
  then show ?case by (intro sys_inv_retask) (auto simp: write_file_Inr)
next
  case (write_fail S i t c e)
  have "sys_inv (S\<lparr>sys_fs := sys_fs S, sys_tasks := (sys_tasks S)(i := None),
                   sys_leaked := insert (task_path t) (sys_leaked S)\<rparr>)"
    using write_fail by (intro sys_inv_remove [where gone = False]) simp_all
  then show ?case by simp
next
  case (finish S i t r s')
  from sys_inv_task [OF finish.prems finish.hyps(1)]
  have "task_path t \<noteq> output_path (task_token t)"
    by (metis prefix_upload_path not_prefix_output_path)
  with finish.hyps(3) obtain v where
    "files s' = ((files (sys_fs S))(task_path t := None))(output_path (task_token t) := v)"
    by (blast dest: cv_finish_effect)
  then have "sys_inv (S\<lparr>sys_fs := s', sys_tasks := (sys_tasks S)(i := None),
                        sys_leaked := sys_leaked S\<rparr>)"
    using finish by (intro sys_inv_remove [where gone = True]) (auto simp: fun_upd_apply)
  then show ?case by simp
next
  case (delete_file S f r s')
  then show ?case
    by (intro sys_inv_fs) (auto dest!: delete_audio_effect simp: fun_upd_apply)
next
  case (disk_space S b)
  then show ?case by (intro sys_inv_fs) simp_all
qed

lemma sys_init_inv: "no_staged s \<Longrightarrow> sys_inv (sys_init s)"
  by (simp add: sys_inv_def sys_init_def no_staged_def in_flight_def)

lemma sys_reach_inv: "sys_reach zm aio S \<Longrightarrow> sys_inv S"
  by (induction rule: sys_reach.induct) (auto intro: sys_init_inv sys_step_inv)


subsection \<open>The segments compose to the handler\<close>

lemma clone_voice_body_segments:
  "clone_voice_body zm aio tok req s =
     (case cv_open tok (req_audio req) s of
        (Inl x, s1) \<Rightarrow> (Inl x, s1)
      | (Inr p, s1) \<Rightarrow>
          (case up_read (req_audio req) of
             Inl e \<Rightarrow> (Inl (PyExc e), s1)
           | Inr c \<Rightarrow>
               (case write_file s1 p c of
                  Inl e \<Rightarrow> (Inl (PyExc e), s1)
                | Inr s2 \<Rightarrow> cv_finish zm aio tok req s2 p)))"
  by (simp add: clone_voice_body_def stage_upload_def cv_open_def cv_finish_def Let_def
      split: option.splits sum.splits prod.splits)

lemma cv_open_Inl: "cv_open tok up s = (Inl x, s1) \<Longrightarrow> s1 = s"
  by (auto simp: cv_open_def Let_def split: option.splits sum.splits)

text \<open>C15.  The step system contains every sequential run of the handler:
  from any state with a free slot and a fresh token, the segments of one
  accepted request, run back to back, lead to a state whose file system is
  the one \<open>clone_voice_body\<close> of \<open>CloneVoice\<close> returns, with no request left
  in flight.\<close>

theorem sys_run_sequential:
  assumes free: "sys_tasks S i = None" and fresh: "tok \<notin> sys_tokens S" and len: "length tok = 36"
    and ok: "validate_clone_request req = None"
  shows "\<exists>S'. (sys_step zm aio)\<^sup>*\<^sup>* S S' \<and>
           sys_fs S' = snd (clone_voice_body zm aio tok req (sys_fs S)) \<and> sys_tasks S' = sys_tasks S"
proof (cases "cv_open tok (req_audio req) (sys_fs S)")
  case (Pair r s1)
  show ?thesis
  proof (cases r)
    case (Inl x)
    with Pair have "s1 = sys_fs S" by (blast dest: cv_open_Inl)
    with Pair Inl show ?thesis by (intro exI [of _ S]) (simp add: clone_voice_body_segments)
  next
    case (Inr p)
    define t0 where "t0 = \<lparr>task_req = req, task_token = tok, task_path = p, task_phase = Opened\<rparr>"
    define S1 where "S1 = S\<lparr>sys_fs := s1, sys_tasks := (sys_tasks S)(i \<mapsto> t0),
                              sys_tokens := insert tok (sys_tokens S)\<rparr>"
    have st1: "sys_step zm aio S S1"
      unfolding S1_def t0_def using free fresh len ok Pair Inr by (intro sys_step.begin_req) simp_all
    show ?thesis
    proof (cases "up_read (req_audio req)")
      case (Inl e)
      let ?S2 = "S1\<lparr>sys_tasks := (sys_tasks S1)(i := None),
                     sys_leaked := insert (task_path t0) (sys_leaked S1)\<rparr>"
      have "sys_step zm aio S1 ?S2"
        using Inl by (intro sys_step.read_fail) (simp_all add: S1_def t0_def)
      with st1 Pair Inr Inl free show ?thesis
        by (intro exI [of _ ?S2]) (auto simp: clone_voice_body_segments S1_def)
    next
      case (Inr c)
      define t1 where "t1 = t0\<lparr>task_phase := ReadDone c\<rparr>"
      define S2 where "S2 = S1\<lparr>sys_tasks := (sys_tasks S1)(i \<mapsto> t1)\<rparr>"
      have st2: "sys_step zm aio S1 S2"
        unfolding S2_def t1_def using Inr by (intro sys_step.read_ok) (simp_all add: S1_def t0_def)
      have t1: "sys_tasks S2 i = Some t1" and ph1: "task_phase t1 = ReadDone c"
        and pt1: "task_path t1 = p" and fs2: "sys_fs S2 = s1"
        by (simp_all add: S2_def S1_def t1_def t0_def)
      show ?thesis
      proof (cases "write_file s1 p c")
        case (Inl e)
        let ?S3 = "S2\<lparr>sys_tasks := (sys_tasks S2)(i := None),
                       sys_leaked := insert (task_path t1) (sys_leaked S2)\<rparr>"
        have "sys_step zm aio S2 ?S3"
          using t1 ph1 Inl by (intro sys_step.write_fail) (simp_all add: fs2 pt1)
        with st1 st2 have "(sys_step zm aio)\<^sup>*\<^sup>* S ?S3"
          by (meson rtranclp.rtrancl_into_rtrancl rtranclp.rtrancl_refl)
        moreover have "sys_fs ?S3 = snd (clone_voice_body zm aio tok req (sys_fs S))"
          using Pair \<open>r = Inr p\<close> \<open>up_read (req_audio req) = Inr c\<close> Inl
          by (simp add: clone_voice_body_segments S2_def S1_def)
        moreover have "sys_tasks ?S3 = sys_tasks S"
          using free by (auto simp: S2_def S1_def)
        ultimately show ?thesis by blast
      next
        case (Inr s2)
        define t2 where "t2 = t1\<lparr>task_phase := Written\<rparr>"
        define S3 where "S3 = S2\<lparr>sys_fs := s2, sys_tasks := (sys_tasks S2)(i \<mapsto> t2)\<rparr>"
        obtain r' s' where fin: "cv_finish zm aio (task_token t2) (task_req t2) (sys_fs S3) (task_path t2) = (r', s')"
          by fastforce
        define S4 where "S4 = S3\<lparr>sys_fs := s', sys_tasks := (sys_tasks S3)(i := None)\<rparr>"
        have st3: "sys_step zm aio S2 S3"
          unfolding S3_def t2_def using t1 ph1 Inr by (intro sys_step.write_ok) (simp_all add: fs2 pt1)
        have "sys_tasks S3 i = Some t2" and "task_phase t2 = Written"
          by (simp_all add: S3_def t2_def)
        then have st4: "sys_step zm aio S3 S4"
          unfolding S4_def using fin by (rule sys_step.finish)
        have "(sys_step zm aio)\<^sup>*\<^sup>* S S4"
          using st1 st2 st3 st4 by (meson rtranclp.rtrancl_into_rtrancl rtranclp.rtrancl_refl)
        moreover have "sys_fs S4 = snd (clone_voice_body zm aio tok req (sys_fs S))"
          using fin Pair \<open>r = Inr p\<close> \<open>up_read (req_audio req) = Inr c\<close> Inr
          by (simp add: clone_voice_body_segments S4_def S3_def S2_def S1_def t2_def t1_def t0_def)
        moreover have "sys_tasks S4 = sys_tasks S"
          using free by (auto simp: S4_def S3_def S2_def S1_def)
        ultimately show ?thesis by blast
      qed
    qed
  qed
qed


subsection \<open>Reachable states\<close>

lemma sys_step_leaked_mono: "sys_step zm aio S S' \<Longrightarrow> sys_leaked S \<subseteq> sys_leaked S'"
  by (induction rule: sys_step.induct) auto

lemma sys_reach_steps: "(sys_step zm aio)\<^sup>*\<^sup>* S S' \<Longrightarrow> sys_reach zm aio S \<Longrightarrow> sys_reach zm aio S'"
  by (induction rule: rtranclp_induct) (auto intro: sys_reach.step)

lemma sys_steps_leaked_mono: "(sys_step zm aio)\<^sup>*\<^sup>* S S' \<Longrightarrow> sys_leaked S \<subseteq> sys_leaked S'"
  by (induction rule: rtranclp_induct) (blast dest: sys_step_leaked_mono)+

lemma staged_by_prefix: "staged_by toks q \<Longrightarrow> prefix ''uploads/'' q"
  by (auto simp: staged_by_def)

text \<open>C16.  In every reachable state a file under \<^verbatim>\<open>uploads/\<close> exists
  exactly when it is the staging file of a request in flight or was left by
  a request whose read or write failed (\<open>sys_leaked\<close>); every such leaked
  file carries the token of a request that was accepted, and none is the
  staging file of a request still in flight.\<close>

theorem reachable_staged_files:
  assumes "sys_reach zm aio S" and "prefix ''uploads/'' q"
  shows "(files (sys_fs S) q \<noteq> None \<longleftrightarrow> q \<in> sys_leaked S \<or> in_flight S q) \<and>
         (q \<in> sys_leaked S \<longrightarrow> staged_by (sys_tokens S) q \<and> \<not> in_flight S q)"
  using sys_inv_files [OF sys_reach_inv [OF assms(1)] assms(2)]
    sys_inv_leaked [OF sys_reach_inv [OF assms(1)]] by blast

text \<open>C17.  Two requests in flight at the same time never share a staging
  file: their tokens differ and the token is part of the name.\<close>

theorem reachable_paths_distinct:
  assumes "sys_reach zm aio S" and "sys_tasks S i = Some ti" and "sys_tasks S j = Some tj"
    and "i \<noteq> j"
  shows "task_path ti \<noteq> task_path tj"
  using sys_reach_inv [OF assms(1)] assms(2-4) by (rule sys_inv_paths_distinct)

text \<open>C18.  The staging file of a request whose read or write failed is never removed:
  it is still on disk after any further interleaving of requests and
  deletions.\<close>

theorem leaked_upload_persists:
  assumes "sys_reach zm aio S" and "q \<in> sys_leaked S" and "(sys_step zm aio)\<^sup>*\<^sup>* S S'"
  shows "files (sys_fs S') q \<noteq> None"
proof -
  have R: "sys_reach zm aio S'"
    using assms(3,1) by (rule sys_reach_steps)
  have L: "q \<in> sys_leaked S'"
    using sys_steps_leaked_mono [OF assms(3)] assms(2) by blast
  have "prefix ''uploads/'' q"
    using sys_inv_leaked [OF sys_reach_inv [OF R] L] by (blast dest: staged_by_prefix)
  with sys_inv_files [OF sys_reach_inv [OF R]] L show ?thesis by blast
qed


lemma ex_begin_step:
  assumes "sys_tasks S i = None" and "tok \<notin> sys_tokens S" and "length tok = 36"
    and "validate_clone_request req = None" and "up_filename (req_audio req) = Some ''ref.wav''"
    and "open_error (dirs (sys_fs S)) (upload_path tok ''ref.wav'') = None"
  shows "sys_step zm aio S (ex_begin S i tok req)"
  using assms by (intro sys_step.begin_req) (simp_all add: cv_open_Inr)

lemma ex_open_ok:
  "c \<in> {CHR ''a'', CHR ''b''} \<Longrightarrow>
     open_error {''uploads'', ''generated''} (upload_path (replicate 36 c) ''ref.wav'') = None"
  by (subst open_error_upload_path)
    (auto simp: upload_path_def upload_filename_def upload_ext_def name_max_def path_max_def
      utf8_length_def sum_list_replicate)

lemma ex_S1_reach: "sys_reach zm aio ex_S1"
proof -
  have r0: "sys_reach zm aio (sys_init ex_fs)"
    by (rule sys_reach.init) (simp add: no_staged_def)
  have v: "validate_clone_request ex_request = None"
    by (simp add: clone_voice_eval)
  have "sys_step zm aio (sys_init ex_fs) ex_S1"
    using v ex_open_ok [of "CHR ''a''"] by (intro ex_begin_step) (simp_all add: sys_init_def)
  with r0 show ?thesis by (rule sys_reach.step)
qed

lemma ex_W3_reach: "sys_reach zm aio ex_W3"
proof -
  have "sys_step zm aio ex_S1 ex_W1"
    by (rule sys_step.read_ok) (simp_all add: sys_init_def)
  with ex_S1_reach have "sys_reach zm aio ex_W1" by (rule sys_reach.step)
  moreover have "sys_step zm aio ex_W1 ex_W2"
    by (rule sys_step.disk_space)
  ultimately have "sys_reach zm aio ex_W2" by (rule sys_reach.step)
  moreover have "sys_step zm aio ex_W2 ex_W3"
  proof -
    let ?t = "(ex_task ex_tok_a ex_request)\<lparr>task_phase := ReadDone [7]\<rparr>"
    have "sys_step zm aio ex_W2 (ex_W2\<lparr>sys_tasks := (sys_tasks ex_W2)(0 := None),
            sys_leaked := insert (task_path ?t) (sys_leaked ex_W2)\<rparr>)"
      by (rule sys_step.write_fail [where c = "[7]" and e = enospc]) (simp_all add: write_file_def)
    then show ?thesis by simp
  qed
  ultimately show ?thesis by (rule sys_reach.step)
qed

lemma ex_S2_reach: "sys_reach zm aio ex_S2"
proof -
  have r1: "sys_reach zm aio ex_S1" by (rule ex_S1_reach)
  have "validate_clone_request ex_bad_request = None"
    by (simp add: clone_voice_eval)
  then have "sys_step zm aio ex_S1 ex_S2"
    using ex_open_ok [of "CHR ''b''"] by (intro ex_begin_step) (simp_all add: sys_init_def upload_path_def)
  with r1 show ?thesis by (rule sys_reach.step)
qed

lemma ex_S3_reach: "sys_reach zm aio ex_S3"
proof -
  have "sys_step zm aio ex_S2 ex_S3"
    by (rule sys_step.read_fail) simp_all
  with ex_S2_reach show ?thesis by (rule sys_reach.step)
qed

subsection \<open>Witnesses\<close>

theorem sys_run_sequential_witness:
  "\<exists>S'. (sys_step ex_zonos ex_audio)\<^sup>*\<^sup>* (sys_init ex_fs) S' \<and>
      sys_fs S' = snd (clone_voice_body ex_zonos ex_audio ex_tok_a ex_request ex_fs) \<and>
      sys_tasks S' = Map.empty"
proof -
  have "validate_clone_request ex_request = None"
    by (simp add: clone_voice_eval)
  then show ?thesis
    using sys_run_sequential [of "sys_init ex_fs" 0 ex_tok_a ex_request ex_zonos ex_audio]
    by (simp add: sys_init_def)
qed

theorem reachable_staged_files_witness:
  "sys_reach ex_zonos ex_audio ex_W3 \<and> prefix ''uploads/'' (upload_path ex_tok_a ''ref.wav'') \<and>
   upload_path ex_tok_a ''ref.wav'' \<in> sys_leaked ex_W3 \<and>
   files (sys_fs ex_W3) (upload_path ex_tok_a ''ref.wav'') \<noteq> None \<and>
   \<not> in_flight ex_W3 (upload_path ex_tok_a ''ref.wav'')"
  using reachable_staged_files [OF ex_W3_reach [of ex_zonos ex_audio], of "upload_path ex_tok_a ''ref.wav''"]
    ex_W3_reach [of ex_zonos ex_audio]
  by simp

theorem reachable_paths_distinct_witness:
  "sys_reach ex_zonos ex_audio ex_S2 \<and> sys_tasks ex_S2 0 = Some (ex_task ex_tok_a ex_request) \<and>
   sys_tasks ex_S2 1 = Some (ex_task ex_tok_b ex_bad_request) \<and>
   task_path (ex_task ex_tok_a ex_request) \<noteq> task_path (ex_task ex_tok_b ex_bad_request)"
  using reachable_paths_distinct [OF ex_S2_reach [of ex_zonos ex_audio], of 0
      "ex_task ex_tok_a ex_request" 1 "ex_task ex_tok_b ex_bad_request"]
    ex_S2_reach [of ex_zonos ex_audio]
  by (simp add: sys_init_def)

theorem leaked_upload_persists_witness:
  "sys_step ex_zonos ex_audio ex_S3 (ex_S3\<lparr>sys_fs := snd (delete_audio (sys_fs ex_S3) ''x.wav'')\<rparr>) \<and>
   files (snd (delete_audio (sys_fs ex_S3) ''x.wav'')) (upload_path ex_tok_b ''ref.wav'') \<noteq> None"
proof -
  have st: "sys_step ex_zonos ex_audio ex_S3 (ex_S3\<lparr>sys_fs := snd (delete_audio (sys_fs ex_S3) ''x.wav'')\<rparr>)"
    by (rule sys_step.delete_file [where r = "fst (delete_audio (sys_fs ex_S3) ''x.wav'')"]) simp
  have "files (sys_fs (ex_S3\<lparr>sys_fs := snd (delete_audio (sys_fs ex_S3) ''x.wav'')\<rparr>))
          (upload_path ex_tok_b ''ref.wav'') \<noteq> None"
  proof -
    have "(sys_step ex_zonos ex_audio)\<^sup>*\<^sup>* ex_S3
            (ex_S3\<lparr>sys_fs := snd (delete_audio (sys_fs ex_S3) ''x.wav'')\<rparr>)"
      using st by (rule r_into_rtranclp [where r = "sys_step ex_zonos ex_audio"])
    then show ?thesis
      by (rule leaked_upload_persists [OF ex_S3_reach, rotated]) simp
  qed
  with st show ?thesis by simp
qed

end
