(* ===== verification/Routing.thy ===== *)
theory Routing
  imports AudioFiles
begin

text \<open>
  How a request reaches a handler.  \<^verbatim>\<open>src/main.py\<close> registers, in this
  order, the static mount \<^verbatim>\<open>app.mount("/audio", StaticFiles(directory=
  "generated"))\<close> (line 51) and the routes \<^verbatim>\<open>GET /\<close> (53),
  \<^verbatim>\<open>GET /health\<close> (64), \<^verbatim>\<open>POST /clone-voice\<close> (72),
  \<^verbatim>\<open>GET /audio/{filename}\<close> (175) and \<^verbatim>\<open>DELETE /audio/{filename}\<close> (187);
  FastAPI puts its documentation routes before them (line 39).  \<open>app_routes\<close>
  is that table.  \<open>route_match\<close> and \<open>dispatch\<close> model Starlette's router,
  which is not part of the repository: a route matches fully when its path
  and method match and partially when only the path does (Starlette's own
  \<^verbatim>\<open>Route\<close>, which FastAPI uses for the documentation routes, adds
  \<^verbatim>\<open>HEAD\<close> to a \<^verbatim>\<open>GET\<close> route when it is built; FastAPI's \<^verbatim>\<open>APIRoute\<close>
  of the decorators keeps the methods it is given, so the table lists the
  methods each route accepts); a mount matches every method on every path below
  its prefix; the first full match handles the request, otherwise a partial
  match gives 405 and no match 404.  \<open>static_files\<close> models what the mounted
  \<^verbatim>\<open>StaticFiles\<close> app answers.  The lemmas show that the mount, registered
  first, captures every request under \<^verbatim>\<open>/audio/\<close>: the two handlers of
  \<open>AudioFiles\<close> are never reached, a \<^verbatim>\<open>DELETE\<close> is answered 405 and deletes
  nothing, and a \<^verbatim>\<open>GET\<close> is served by the mount; and that the router is
  equivalent to its contract \<open>dispatch_spec\<close>, written with \<open>find\<close>.
\<close>

datatype http_method = GET | HEAD | POST | PUT | DELETE | PATCH | OPTIONS

datatype endpoint =
    OpenAPI | Docs | DocsOAuthRedirect | ReDoc
  | StaticAudio | Root | Health | CloneVoiceEP | GetAudio | DeleteAudio

datatype route_path = Exact string | OneParam string

datatype route =
    Route route_path "http_method list" endpoint
  | Mount string endpoint

datatype match = NoMatch | Partial | Full

datatype dispatch_result = Handled endpoint | MethodNotAllowed | NotFound

definition app_routes :: "route list" where
  "app_routes =
     [Route (Exact ''/openapi.json'') [GET, HEAD] OpenAPI,
      Route (Exact ''/docs'') [GET, HEAD] Docs,
      Route (Exact ''/docs/oauth2-redirect'') [GET, HEAD] DocsOAuthRedirect,
      Route (Exact ''/redoc'') [GET, HEAD] ReDoc,
      Mount ''/audio'' StaticAudio,
      Route (Exact ''/'') [GET] Root,
      Route (Exact ''/health'') [GET] Health,
      Route (Exact ''/clone-voice'') [POST] CloneVoiceEP,
      Route (OneParam ''/audio/'') [GET] GetAudio,
      Route (OneParam ''/audio/'') [DELETE] DeleteAudio]"

fun path_matches :: "route_path \<Rightarrow> string \<Rightarrow> bool" where
  "path_matches (Exact p) q \<longleftrightarrow> q = p"
| "path_matches (OneParam pre) q \<longleftrightarrow>
     take (length pre) q = pre \<and> length pre < length q \<and> CHR ''/'' \<notin> set (drop (length pre) q)"

fun route_match :: "route \<Rightarrow> http_method \<Rightarrow> string \<Rightarrow> match" where
  "route_match (Route rp ms ep) m q =
     (if \<not> path_matches rp q then NoMatch
      else if m \<in> set ms then Full else Partial)"
| "route_match (Mount pre ep) m q =
     (if take (length pre + 1) q = pre @ ''/'' then Full else NoMatch)"

fun route_endpoint :: "route \<Rightarrow> endpoint" where
  "route_endpoint (Route rp ms ep) = ep"
| "route_endpoint (Mount pre ep) = ep"

fun dispatch_from :: "bool \<Rightarrow> route list \<Rightarrow> http_method \<Rightarrow> string \<Rightarrow> dispatch_result" where
  "dispatch_from partial [] m q = (if partial then MethodNotAllowed else NotFound)"
| "dispatch_from partial (r # rs) m q =
     (case route_match r m q of
        Full \<Rightarrow> Handled (route_endpoint r)
      | Partial \<Rightarrow> dispatch_from True rs m q
      | NoMatch \<Rightarrow> dispatch_from partial rs m q)"

definition dispatch :: "route list \<Rightarrow> http_method \<Rightarrow> string \<Rightarrow> dispatch_result" where
  "dispatch rs m q = dispatch_from False rs m q"

text \<open>The mounted \<^verbatim>\<open>StaticFiles(directory="generated")\<close> app on the path
  below the mount: only \<^verbatim>\<open>GET\<close> and \<^verbatim>\<open>HEAD\<close> are served, a regular file
  is sent and anything else is 404.\<close>

definition static_files :: "fs \<Rightarrow> http_method \<Rightarrow> string \<Rightarrow> bytes reply" where
  "static_files s m sub =
     (if m \<notin> {GET, HEAD} then HTTPException 405 ''Method Not Allowed''
      else case files s (generated_path sub) of
             Some b \<Rightarrow> Reply b
           | None \<Rightarrow> HTTPException 404 ''Not Found'')"

text \<open>The router's contract, as a reference: the first route that matches
  fully handles the request; otherwise the answer is 405 when some route
  matches the path only, and 404 when none does.\<close>

definition dispatch_spec :: "route list \<Rightarrow> http_method \<Rightarrow> string \<Rightarrow> dispatch_result" where
  "dispatch_spec rs m q =
     (case find (\<lambda>r. route_match r m q = Full) rs of
        Some r \<Rightarrow> Handled (route_endpoint r)
      | None \<Rightarrow> if list_ex (\<lambda>r. route_match r m q = Partial) rs then MethodNotAllowed else NotFound)"

subsection \<open>The mount shadows the audio routes\<close>

lemma dispatch_audio_mount: "dispatch app_routes m (''/audio/'' @ f) = Handled StaticAudio"
  by (simp add: dispatch_def app_routes_def)

text \<open>C13.  Every request under \<^verbatim>\<open>/audio/\<close>, whatever its method, is handled
  by the static mount of line 51, never by \<^verbatim>\<open>get_audio\<close> or
  \<^verbatim>\<open>delete_audio\<close>; a \<^verbatim>\<open>DELETE /audio/<name>\<close> is answered 405 whether or not
  the file exists.\<close>

theorem audio_routes_shadowed:
  "dispatch app_routes m (''/audio/'' @ f) = Handled StaticAudio \<and>
   dispatch app_routes m (''/audio/'' @ f) \<noteq> Handled GetAudio \<and>
   dispatch app_routes m (''/audio/'' @ f) \<noteq> Handled DeleteAudio \<and>
   static_files s DELETE f = HTTPException 405 ''Method Not Allowed''"
  by (simp only: dispatch_audio_mount) (simp add: static_files_def)

lemma dispatch_never_audio_handlers:
  "dispatch app_routes m q \<noteq> Handled GetAudio \<and> dispatch app_routes m q \<noteq> Handled DeleteAudio"
  by (simp add: dispatch_def app_routes_def split: if_splits)

subsection \<open>The route table as a whole\<close>



subsection \<open>The router against its contract\<close>

lemma dispatch_from_find:
  "dispatch_from partial rs m q =
     (case find (\<lambda>r. route_match r m q = Full) rs of
        Some r \<Rightarrow> Handled (route_endpoint r)
      | None \<Rightarrow>
          if partial \<or> list_ex (\<lambda>r. route_match r m q = Partial) rs then MethodNotAllowed
          else NotFound)"
  by (induction rs arbitrary: partial) (auto split: match.splits)

text \<open>The recursive router, which carries a flag for an earlier partial
  match, is equivalent to the reference \<open>dispatch_spec\<close> on every route
  table, method and path.\<close>

lemma dispatch_eq_spec: "dispatch rs m q = dispatch_spec rs m q"
  by (simp add: dispatch_def dispatch_spec_def dispatch_from_find)

end
