(* ===== verification/Service.thy ===== *)
theory Service
  imports Routing
begin

text \<open>
  The service around the handlers, \<^verbatim>\<open>src/main.py\<close> outside the handler
  bodies.  Importing the module (lines 19 and 39-51) sets \<^verbatim>\<open>model = None\<close>
  and creates the two directories (\<open>module_import\<close>); uvicorn then runs the
  startup half of \<^verbatim>\<open>lifespan\<close> (lines 21-34), which loads the model or
  re-raises, and only after it returns accepts requests; the shutdown half
  (line 37) runs when the server stops (\<open>lifespan_startup\<close>,
  \<open>lifespan_shutdown\<close>).  \<open>handle_request\<close> routes one request with
  \<open>dispatch\<close> of \<open>Routing\<close> to \<^verbatim>\<open>root\<close> (53-62), \<^verbatim>\<open>health_check\<close>
  (64-70), \<^verbatim>\<open>clone_voice\<close>, the static mount or the audio handlers.
  \<open>srv_reach\<close> is the life of a server: a successful boot, then requests and
  a shutdown.  The lemmas show that every served state has the model loaded
  and both directories, so that \<^verbatim>\<open>/health\<close> reports the model loaded and
  the 503 branch of \<^verbatim>\<open>clone_voice\<close> is never taken, and that a failed model
  load leaves no server.
\<close>

datatype srv_phase = Starting | Serving | Stopped

record 'm server =
  srv_phase :: srv_phase
  srv_model :: "'m option"
  srv_fs :: fs

type_synonym ('spk, 'cd, 'cond, 'codes) zonos_server = "('spk, 'cd, 'cond, 'codes) zonos server"

definition module_import :: "fs \<Rightarrow> 'm server py" where
  "module_import s =
     py_bind (makedirs_exist_ok s ''uploads'')
       (\<lambda>s1. py_bind (makedirs_exist_ok s1 ''generated'')
       (\<lambda>s2. Inr \<lparr>srv_phase = Starting, srv_model = None, srv_fs = s2\<rparr>))"

text \<open>\<^verbatim>\<open>Zonos.from_pretrained\<close> is a collaborator: its outcome is the
  argument \<open>load\<close>.\<close>

definition lifespan_startup :: "'m py \<Rightarrow> 'm server \<Rightarrow> 'm server py" where
  "lifespan_startup load srv =
     (case load of
        Inl e \<Rightarrow> Inl e
      | Inr m \<Rightarrow> Inr (srv\<lparr>srv_model := Some m, srv_phase := Serving\<rparr>))"

definition lifespan_shutdown :: "'m server \<Rightarrow> 'm server" where
  "lifespan_shutdown srv = srv\<lparr>srv_phase := Stopped\<rparr>"

record health =
  h_status :: string
  h_model_loaded :: bool
  h_device :: string

definition health_check :: "string \<Rightarrow> 'm server \<Rightarrow> health" where
  "health_check device srv =
     \<lparr>h_status = ''healthy'', h_model_loaded = (srv_model srv \<noteq> None), h_device = device\<rparr>"

record root_info =
  ri_message :: string
  ri_endpoints :: "(string \<times> string) list"

definition root :: root_info where
  "root =
     \<lparr>ri_message = ''Zonos Voice Cloning API'',
      ri_endpoints =
        [(''POST /clone-voice'', ''Clone voice with reference audio''),
         (''GET /audio/{filename}'', ''Download generated audio''),
         (''GET /health'', ''Health check'')]\<rparr>"

record http_request =
  rq_method :: http_method
  rq_path :: string
  rq_form :: "clone_request option"

datatype response =
    RootResp root_info
  | HealthResp health
  | CloneResp "clone_response reply"
  | StaticResp "bytes reply"
  | GetAudioResp "file_response reply"
  | DeleteAudioResp "string reply"
  | DocsResp
  | UnprocessableEntity
  | MethodNotAllowedResp
  | NotFoundResp

text \<open>One request, with the token \<^verbatim>\<open>uuid.uuid4()\<close> would draw for it.  A
  \<^verbatim>\<open>POST /clone-voice\<close> whose form lacks a required field is refused by
  FastAPI with 422 before the handler runs (\<open>rq_form\<close> is \<open>None\<close>).\<close>

definition handle_request ::
  "audio_backend \<Rightarrow> string \<Rightarrow> string \<Rightarrow> http_request \<Rightarrow>
   ('spk, 'cd, 'cond, 'codes) zonos_server \<Rightarrow> response \<times> ('spk, 'cd, 'cond, 'codes) zonos_server" where
  "handle_request aio device tok rq srv =
     (let sub = drop (length ''/audio/'') (rq_path rq) in
      case dispatch app_routes (rq_method rq) (rq_path rq) of
        Handled Root \<Rightarrow> (RootResp root, srv)
      | Handled Health \<Rightarrow> (HealthResp (health_check device srv), srv)
      | Handled CloneVoiceEP \<Rightarrow>
          (case rq_form rq of
             None \<Rightarrow> (UnprocessableEntity, srv)
           | Some req \<Rightarrow>
               (case clone_voice (srv_model srv) aio tok req (srv_fs srv) of
                  (r, s') \<Rightarrow> (CloneResp r, srv\<lparr>srv_fs := s'\<rparr>)))
      | Handled StaticAudio \<Rightarrow> (StaticResp (static_files (srv_fs srv) (rq_method rq) sub), srv)
      | Handled GetAudio \<Rightarrow> (GetAudioResp (get_audio (srv_fs srv) sub), srv)
      | Handled DeleteAudio \<Rightarrow>
          (case delete_audio (srv_fs srv) sub of (r, s') \<Rightarrow> (DeleteAudioResp r, srv\<lparr>srv_fs := s'\<rparr>))
      | Handled _ \<Rightarrow> (DocsResp, srv)
      | MethodNotAllowed \<Rightarrow> (MethodNotAllowedResp, srv)
      | NotFound \<Rightarrow> (NotFoundResp, srv))"

inductive srv_reach ::
  "audio_backend \<Rightarrow> string \<Rightarrow> ('spk, 'cd, 'cond, 'codes) zonos_server \<Rightarrow> bool"
  for aio device where
  boot: "\<lbrakk>module_import s = Inr srv0; lifespan_startup load srv0 = Inr srv1\<rbrakk> \<Longrightarrow>
         srv_reach aio device srv1"
| request: "\<lbrakk>srv_reach aio device srv; srv_phase srv = Serving;
             handle_request aio device tok rq srv = (resp, srv')\<rbrakk> \<Longrightarrow>
            srv_reach aio device srv'"
| shutdown: "\<lbrakk>srv_reach aio device srv; srv_phase srv = Serving\<rbrakk> \<Longrightarrow>
             srv_reach aio device (lifespan_shutdown srv)"


definition srv_inv :: "'m server \<Rightarrow> bool" where
  "srv_inv srv \<longleftrightarrow>
     srv_model srv \<noteq> None \<and> ''uploads'' \<in> dirs (srv_fs srv) \<and> ''generated'' \<in> dirs (srv_fs srv)"

text \<open>The HTTP status codes an exception can carry are among \<open>C\<close>.\<close>

definition http_codes :: "int set \<Rightarrow> exn \<Rightarrow> bool" where
  "http_codes C x \<longleftrightarrow> (\<forall>c d. x = HTTPExc c d \<longrightarrow> c \<in> C)"

text \<open>A server booted on \<open>ex_fs\<close> with the model \<open>ex_zonos\<close> of \<open>CloneVoice\<close>.\<close>

abbreviation ex_srv :: "(unit, unit, unit, unit) zonos_server" where
  "ex_srv \<equiv> \<lparr>srv_phase = Serving, srv_model = Some ex_zonos, srv_fs = ex_fs\<rparr>"

subsection \<open>The directories stay\<close>

lemma open_wb_dirs: "open_wb s p = Inr s' \<Longrightarrow> dirs s' = dirs s"
  by (auto simp: open_wb_Inr)

lemma os_remove_dirs: "os_remove s p = Inr s' \<Longrightarrow> dirs s' = dirs s"
  by (auto simp: os_remove_Inr)

lemma cleanup_upload_dirs: "cleanup_upload s p = Inr s' \<Longrightarrow> dirs s' = dirs s"
  by (auto simp: cleanup_upload_Inr)

lemma torchaudio_save_dirs: "torchaudio_save aio s p w sr = (r, s') \<Longrightarrow> dirs s' = dirs s"
  by (cases r) (auto simp: torchaudio_save_Inr dest: torchaudio_save_Inl)

lemma except_cleanup_dirs: "except_cleanup c m s p e = (r, s') \<Longrightarrow> dirs s' = dirs s"
  by (auto simp: except_cleanup_def dest: cleanup_upload_dirs split: sum.splits)

lemma load_reference_dirs: "load_reference zm aio s p = (r, s') \<Longrightarrow> dirs s' = dirs s"
  by (auto simp: load_reference_def dest: except_cleanup_dirs split: sum.splits)

lemma stage_upload_dirs:
  assumes "stage_upload tok up s = (r, s')"
  shows "dirs s' = dirs s"
proof (cases r)
  case (Inl x)
  with assms show ?thesis by (auto dest: stage_upload_Inl)
next
  case (Inr p)
  with assms show ?thesis by (auto simp: stage_upload_Inr)
qed

lemma clone_voice_body_dirs:
  assumes run: "clone_voice_body zm aio tok req s = (r, s')"
  shows "dirs s' = dirs s"
proof (cases "stage_upload tok (req_audio req) s")
  case (Pair r1 s1)
  then have d1: "dirs s1 = dirs s" by (rule stage_upload_dirs)
  show ?thesis
  proof (cases r1)
    case (Inl x)
    with Pair run d1 show ?thesis by (simp add: clone_voice_body_def)
  next
    case (Inr p)
    with Pair have pne: "p \<noteq> output_path tok"
      by (auto simp: stage_upload_Inr upload_path_ne_output_path)
    obtain r2 s2 where L: "load_reference zm aio s1 p = (r2, s2)" by fastforce
    have d2: "dirs s2 = dirs s1"
      using load_reference_cases [OF L] by auto
    show ?thesis
    proof (cases r2)
      case (Inl x)
      with Pair Inr L run d1 d2 show ?thesis by (simp add: clone_voice_body_def)
    next
      case (Inr spk)
      with Pair \<open>r1 = Inr p\<close> L run have "synthesize zm aio tok req s2 p spk = (r, s')"
        by (simp add: clone_voice_body_def)
      with pne d1 d2 show ?thesis by (simp add: synthesize_effect)
    qed
  qed
qed

lemma clone_voice_dirs:
  assumes "clone_voice m aio tok req s = (r, s')"
  shows "dirs s' = dirs s"
proof (cases "m = None \<or> validate_clone_request req \<noteq> None")
  case True
  with assms show ?thesis by (auto simp: clone_voice_def split: option.splits)
next
  case False
  then obtain zm where m: "m = Some zm" and v: "validate_clone_request req = None"
    by (cases "validate_clone_request req") auto
  obtain rb where "clone_voice_body zm aio tok req s = (rb, s')"
    using assms by (simp add: clone_voice_def m v split: prod.splits sum.splits)
  then show ?thesis by (rule clone_voice_body_dirs)
qed

lemma delete_audio_dirs: "delete_audio s f = (r, s') \<Longrightarrow> dirs s' = dirs s"
  by (auto simp: delete_audio_def Let_def dest: os_remove_dirs split: if_splits sum.splits)


subsection \<open>Error codes of the handler\<close>

lemma except_cleanup_exn:
  "except_cleanup code msg s p e = (Inl x, s') \<Longrightarrow> x = HTTPExc code (msg @ e) \<or> (\<exists>m. x = PyExc m)"
  by (auto simp: except_cleanup_def split: sum.splits)

lemma except_cleanup_codes:
  "except_cleanup code msg s p e = (Inl x, s') \<Longrightarrow> code \<in> C \<Longrightarrow> http_codes C x"
  by (auto simp: http_codes_def dest: except_cleanup_exn)

lemma clone_voice_body_codes:
  assumes "clone_voice_body zm aio tok req s = (Inl x, s')"
  shows "http_codes {400, 500} x"
  using assms
  unfolding clone_voice_body_def stage_upload_def load_reference_def synthesize_def Let_def
  by (auto simp: http_codes_def dest!: except_cleanup_exn split: option.splits sum.splits prod.splits)

lemma validate_clone_request_400: "validate_clone_request req = Some (c, d) \<Longrightarrow> c = 400"
  by (auto simp: validate_clone_request_def split: if_splits option.splits)

lemma clone_voice_loaded_codes:
  assumes "clone_voice (Some zm) aio tok req s = (HTTPException c d, s')"
  shows "c = 400 \<or> c = 500"
proof (cases "validate_clone_request req")
  case (Some cd)
  with assms show ?thesis
    by (cases cd) (auto simp: clone_voice_def dest: validate_clone_request_400)
next
  case None
  obtain rb sb where B: "clone_voice_body zm aio tok req s = (rb, sb)" by fastforce
  show ?thesis
  proof (cases rb)
    case (Inl x)
    with B None assms have "outer_except x = (HTTPException c d :: clone_response reply)"
      by (simp add: clone_voice_def)
    with B Inl clone_voice_body_codes [of zm aio tok req s x sb] show ?thesis
      by (auto simp: outer_except_def http_codes_def split: exn.splits)
  next
    case (Inr resp)
    with B None assms show ?thesis by (simp add: clone_voice_def)
  qed
qed


subsection \<open>Served states\<close>

lemma module_import_dirs:
  "module_import s = Inr srv \<Longrightarrow>
     srv_model srv = None \<and> srv_phase srv = Starting \<and> files (srv_fs srv) = files s \<and>
     dirs (srv_fs srv) = insert ''generated'' (insert ''uploads'' (dirs s))"
  by (auto simp: module_import_def makedirs_exist_ok_def split: if_splits)

lemma lifespan_startup_Inr:
  "lifespan_startup load srv = Inr srv' \<longleftrightarrow>
     (\<exists>m. load = Inr m \<and> srv' = srv\<lparr>srv_model := Some m, srv_phase := Serving\<rparr>)"
  by (auto simp: lifespan_startup_def split: sum.splits)

lemma handle_request_cases:
  assumes "handle_request aio device tok rq srv = (resp, srv')"
  shows "srv_model srv' = srv_model srv \<and> srv_phase srv' = srv_phase srv \<and>
         (srv_fs srv' = srv_fs srv \<or>
          (\<exists>req r. rq_form rq = Some req \<and> resp = CloneResp r \<and>
             clone_voice (srv_model srv) aio tok req (srv_fs srv) = (r, srv_fs srv')) \<or>
          (\<exists>f r. resp = DeleteAudioResp r \<and> delete_audio (srv_fs srv) f = (r, srv_fs srv')))"
proof (cases "dispatch app_routes (rq_method rq) (rq_path rq)")
  case (Handled ep)
  with assms show ?thesis
    by (cases ep) (auto simp: handle_request_def Let_def split: option.splits prod.splits)
qed (use assms in \<open>simp_all add: handle_request_def\<close>)

lemma handle_request_clone:
  assumes "handle_request aio device tok rq srv = (CloneResp r, srv')"
  shows "\<exists>req. clone_voice (srv_model srv) aio tok req (srv_fs srv) = (r, srv_fs srv')"
proof (cases "dispatch app_routes (rq_method rq) (rq_path rq)")
  case (Handled ep)
  with assms show ?thesis
    by (cases ep) (auto simp: handle_request_def Let_def split: option.splits prod.splits)
qed (use assms in \<open>simp_all add: handle_request_def\<close>)

lemma handle_request_dirs:
  assumes "handle_request aio device tok rq srv = (resp, srv')"
  shows "dirs (srv_fs srv') = dirs (srv_fs srv)"
  using handle_request_cases [OF assms]
proof (elim conjE disjE exE)
  fix req r
  assume "clone_voice (srv_model srv) aio tok req (srv_fs srv) = (r, srv_fs srv')"
  then show ?thesis by (rule clone_voice_dirs)
next
  fix f r
  assume "delete_audio (srv_fs srv) f = (r, srv_fs srv')"
  then show ?thesis by (rule delete_audio_dirs)
qed simp

lemma handle_request_inv:
  assumes "handle_request aio device tok rq srv = (resp, srv')" and "srv_inv srv"
  shows "srv_inv srv'"
  using handle_request_cases [OF assms(1)] handle_request_dirs [OF assms(1)] assms(2)
  by (simp add: srv_inv_def)

lemma srv_reach_inv: "srv_reach aio device srv \<Longrightarrow> srv_inv srv"
proof (induction rule: srv_reach.induct)
  case (boot s srv0 load srv1)
  from boot.hyps(2) obtain m where "srv1 = srv0\<lparr>srv_model := Some m, srv_phase := Serving\<rparr>"
    by (auto simp: lifespan_startup_Inr)
  with module_import_dirs [OF boot.hyps(1)] show ?case
    by (simp add: srv_inv_def)
next
  case (request srv tok rq resp srv')
  from request.hyps(3) request.IH show ?case by (rule handle_request_inv)
next
  case (shutdown srv)
  then show ?case by (simp add: srv_inv_def lifespan_shutdown_def)
qed

lemma ex_srv_reach: "srv_reach aio device ex_srv"
proof -
  have "module_import ex_fs = Inr \<lparr>srv_phase = Starting, srv_model = None, srv_fs = ex_fs\<rparr>"
    by (simp add: module_import_def makedirs_exist_ok_def)
  moreover have "lifespan_startup (Inr ex_zonos) \<lparr>srv_phase = Starting, srv_model = None, srv_fs = ex_fs\<rparr>
                   = Inr ex_srv"
    by (simp add: lifespan_startup_def)
  ultimately show ?thesis by (rule srv_reach.boot)
qed


subsection \<open>One request of each kind\<close>

lemma handle_request_health:
  "handle_request aio device tok \<lparr>rq_method = GET, rq_path = ''/health'', rq_form = f\<rparr> srv =
     (HealthResp (health_check device srv), srv)"
  by (simp add: handle_request_def dispatch_def app_routes_def)

lemma handle_request_clone_voice:
  "handle_request aio device tok \<lparr>rq_method = POST, rq_path = ''/clone-voice'', rq_form = Some req\<rparr> srv =
     (CloneResp (fst (clone_voice (srv_model srv) aio tok req (srv_fs srv))),
      srv\<lparr>srv_fs := snd (clone_voice (srv_model srv) aio tok req (srv_fs srv))\<rparr>)"
  by (simp add: handle_request_def dispatch_def app_routes_def split: prod.splits)

lemma handle_request_audio:
  "handle_request aio device tok \<lparr>rq_method = m, rq_path = ''/audio/'' @ f, rq_form = fm\<rparr> srv =
     (StaticResp (static_files (srv_fs srv) m f), srv)"
  by (simp only: handle_request_def Let_def http_request.select_convs dispatch_audio_mount)
    (simp add: dispatch_result.case endpoint.case)

subsection \<open>Properties\<close>

text \<open>C19.  A served \<^verbatim>\<open>/clone-voice\<close> request is refused only with 400 or
  500: the model is loaded before the first request is accepted, so the 503
  \<^verbatim>\<open>Model not loaded\<close> branch (lines 80-81) is never taken.\<close>

theorem served_clone_codes:
  assumes "srv_reach aio device srv"
    and "handle_request aio device tok rq srv = (CloneResp (HTTPException c d), srv')"
  shows "c = 400 \<or> c = 500"
proof -
  obtain zm where "srv_model srv = Some zm"
    using srv_reach_inv [OF assms(1)] by (auto simp: srv_inv_def)
  with handle_request_clone [OF assms(2)] show ?thesis
    by (auto dest: clone_voice_loaded_codes)
qed

theorem served_clone_codes_witness:
  "handle_request ex_audio ''cpu'' ''abc''
     \<lparr>rq_method = POST, rq_path = ''/clone-voice'', rq_form = Some (ex_request\<lparr>req_text := '' ''\<rparr>)\<rparr>
     ex_srv = (CloneResp (HTTPException 400 ''Text cannot be empty''), ex_srv) \<and>
   ((400::int) = 400 \<or> (400::int) = 500)"
proof -
  have h: "handle_request ex_audio ''cpu'' ''abc''
     \<lparr>rq_method = POST, rq_path = ''/clone-voice'', rq_form = Some (ex_request\<lparr>req_text := '' ''\<rparr>)\<rparr>
     ex_srv = (CloneResp (HTTPException 400 ''Text cannot be empty''), ex_srv)"
    by (simp add: handle_request_def dispatch_def app_routes_def clone_voice_def
        validate_clone_request_def py_strip_def py_isspace_def)
  then show ?thesis
    using served_clone_codes [OF ex_srv_reach h] by simp
qed

text \<open>C20.  In a served state \<^verbatim>\<open>GET /health\<close> answers healthy with
  \<^verbatim>\<open>model_loaded\<close> true and changes nothing.\<close>

theorem served_health:
  assumes "srv_reach aio device srv"
  shows "handle_request aio device tok \<lparr>rq_method = GET, rq_path = ''/health'', rq_form = f\<rparr> srv =
           (HealthResp \<lparr>h_status = ''healthy'', h_model_loaded = True, h_device = device\<rparr>, srv)"
  using srv_reach_inv [OF assms]
  by (simp add: srv_inv_def handle_request_health health_check_def)

theorem served_health_witness:
  "handle_request ex_audio ''cpu'' ''abc'' \<lparr>rq_method = GET, rq_path = ''/health'', rq_form = None\<rparr> ex_srv =
     (HealthResp \<lparr>h_status = ''healthy'', h_model_loaded = True, h_device = ''cpu''\<rparr>, ex_srv)"
  by (rule served_health [OF ex_srv_reach])

text \<open>C21.  In every state of a server, from its boot through any requests
  to its shutdown, the model is loaded and both directories exist.\<close>

theorem served_state_invariant:
  assumes "srv_reach aio device srv"
  shows "srv_model srv \<noteq> None \<and> ''uploads'' \<in> dirs (srv_fs srv) \<and> ''generated'' \<in> dirs (srv_fs srv)"
  using srv_reach_inv [OF assms] by (simp add: srv_inv_def)

theorem served_state_invariant_witness:
  "srv_model ex_srv \<noteq> None \<and> ''uploads'' \<in> dirs (srv_fs ex_srv) \<and> ''generated'' \<in> dirs (srv_fs ex_srv)"
  by (rule served_state_invariant [OF ex_srv_reach])

text \<open>C22.  Importing the module succeeds exactly when each of the two
  directory names is a directory already, or is free and the device has room
  to create it: \<^verbatim>\<open>os.makedirs(..., exist_ok=True)\<close> raises
  \<^verbatim>\<open>FileExistsError\<close> on a regular file of that name and \<^verbatim>\<open>ENOSPC\<close> on a
  full device.\<close>

theorem module_import_result:
  "(\<exists>srv. module_import s = Inr srv) \<longleftrightarrow>
     (''uploads'' \<in> dirs s \<or> files s ''uploads'' = None \<and> \<not> disk_full s) \<and>
     (''generated'' \<in> dirs s \<or> files s ''generated'' = None \<and> \<not> disk_full s)"
  by (auto simp: module_import_def makedirs_exist_ok_def split: if_splits)

text \<open>C31.  Over HTTP only \<^verbatim>\<open>POST /clone-voice\<close> changes the server's
  disk: because the static mount shadows \<^verbatim>\<open>DELETE /audio/{filename}\<close>, no
  request can delete a generated file, and every other route only reads.\<close>

theorem only_clone_changes_disk:
  assumes "handle_request aio device tok rq srv = (resp, srv')" and "srv_fs srv' \<noteq> srv_fs srv"
  shows "dispatch app_routes (rq_method rq) (rq_path rq) = Handled CloneVoiceEP \<and> rq_form rq \<noteq> None"
proof (cases "dispatch app_routes (rq_method rq) (rq_path rq)")
  case (Handled ep)
  moreover have "ep \<noteq> DeleteAudio"
    using Handled dispatch_never_audio_handlers by metis
  ultimately show ?thesis
    using assms
    by (cases ep) (auto simp: handle_request_def Let_def split: option.splits prod.splits)
qed (use assms in \<open>simp_all add: handle_request_def\<close>)

theorem only_clone_changes_disk_witness:
  "srv_fs (snd (handle_request ex_audio ''cpu'' ''abc''
      \<lparr>rq_method = POST, rq_path = ''/clone-voice'', rq_form = Some ex_request\<rparr> ex_srv)) \<noteq> ex_fs \<and>
   dispatch app_routes POST ''/clone-voice'' = Handled CloneVoiceEP"
proof -
  have c: "clone_voice (Some ex_zonos) ex_audio ''abc'' ex_request ex_fs =
          (Reply (clone_result ''abc'' ex_request 2 2), ex_fs\<lparr>files := [output_path ''abc'' \<mapsto> [1, 2]]\<rparr>)"
    by (simp add: clone_voice_eval)
  have h: "handle_request ex_audio ''cpu'' ''abc''
      \<lparr>rq_method = POST, rq_path = ''/clone-voice'', rq_form = Some ex_request\<rparr> ex_srv =
      (CloneResp (Reply (clone_result ''abc'' ex_request 2 2)),
       ex_srv\<lparr>srv_fs := ex_fs\<lparr>files := [output_path ''abc'' \<mapsto> [1, 2]]\<rparr>\<rparr>)"
    by (simp only: handle_request_clone_voice server.select_convs c fst_conv snd_conv)
  have ne: "srv_fs (ex_srv\<lparr>srv_fs := ex_fs\<lparr>files := [output_path ''abc'' \<mapsto> [1, 2]]\<rparr>\<rparr>) \<noteq> srv_fs ex_srv"
    by (simp add: fun_eq_iff)
  from only_clone_changes_disk [OF h ne] ne h show ?thesis by simp
qed

end
