(* ===== verification/Client.thy ===== *)
theory Client
  imports Service
begin

text \<open>
  The manual test client \<^verbatim>\<open>src/test_api.py\<close>.  It talks to the service over
  HTTP; the model states it over a transport \<open>'s transport\<close>: a function
  that takes the server's state and a request and returns a response or the
  exception \<^verbatim>\<open>requests\<close> raises (connection refused, time-out), with the
  server's next state.  The client's own working directory is an \<open>fs\<close>.
  \<open>test_health\<close> (lines 14-20), \<open>test_voice_cloning\<close> (22-69),
  \<open>test_audio_download\<close> (71-88) and \<open>client_main\<close> (90-110) follow the
  source; printing and \<^verbatim>\<open>time.sleep(5)\<close> are left out, and the verdict of
  \<^verbatim>\<open>main\<close> is the branch it takes (\<open>main_outcome\<close>).  \<open>serve_http\<close> is the
  transport of a running server of \<open>Service\<close>: FastAPI turns each handler
  result into a status code and a body (\<open>to_http\<close>; JSON encoding is the
  parameter \<open>json\<close>).  The lemmas compose the client with the service: the
  test's verdict is exactly whether \<^verbatim>\<open>clone_voice\<close> succeeds, a download
  copies the generated file byte for byte, and an unreachable server makes
  \<^verbatim>\<open>main\<close> crash instead of reporting a failed health check.
\<close>

record http_response =
  status_code :: int
  content :: bytes

type_synonym 's transport = "'s \<Rightarrow> http_request \<Rightarrow> http_response py \<times> 's"

datatype main_outcome = HealthCheckFailed | CloneTestPassed | CloneTestFailed

definition example_audio :: path where
  "example_audio = ''assets/exampleaudio.m4a''"

definition example_text :: string where
  "example_text =
     ''Hello! This is a test of voice cloning using Zonos. The quick brown fox jumps over the lazy dog.''"

definition example_request :: "bytes \<Rightarrow> clone_request" where
  "example_request c =
     \<lparr>req_text = example_text,
      req_audio = \<lparr>up_filename = Some ''exampleaudio.m4a'', up_content_type = Some ''audio/m4a'',
                   up_read = Inr c\<rparr>,
      req_language = ''en-us'', req_temperature = 1, req_top_p = 9 / 10\<rparr>"

text \<open>\<^verbatim>\<open>requests.get(f"{BASE_URL}/health")\<close> is outside any \<^verbatim>\<open>try\<close>: its
  exception propagates.\<close>

definition test_health :: "'s transport \<Rightarrow> 's \<Rightarrow> bool py \<times> 's" where
  "test_health tr st =
     (case tr st \<lparr>rq_method = GET, rq_path = ''/health'', rq_form = None\<rparr> of
        (Inl e, st') \<Rightarrow> (Inl e, st')
      | (Inr r, st') \<Rightarrow> (Inr (status_code r = 200), st'))"

text \<open>The file is opened at line 34, outside the \<^verbatim>\<open>try\<close>; the post and the
  reading of its answer are inside it, and every exception there gives
  \<open>False\<close>.\<close>

definition test_voice_cloning :: "'s transport \<Rightarrow> fs \<Rightarrow> 's \<Rightarrow> bool py \<times> 's" where
  "test_voice_cloning tr cfs st =
     (if \<not> os_path_exists cfs example_audio then (Inr False, st)
      else case read_file cfs example_audio of
             Inl e \<Rightarrow> (Inl e, st)
           | Inr c \<Rightarrow>
               (case tr st \<lparr>rq_method = POST, rq_path = ''/clone-voice'',
                            rq_form = Some (example_request c)\<rparr> of
                  (Inl e, st') \<Rightarrow> (Inr False, st')
                | (Inr r, st') \<Rightarrow> (Inr (status_code r = 200), st')))"

definition test_audio_download :: "'s transport \<Rightarrow> fs \<Rightarrow> 's \<Rightarrow> string \<Rightarrow> bool \<times> fs \<times> 's" where
  "test_audio_download tr cfs st filename =
     (case tr st \<lparr>rq_method = GET, rq_path = ''/audio/'' @ filename, rq_form = None\<rparr> of
        (Inl e, st') \<Rightarrow> (False, cfs, st')
      | (Inr r, st') \<Rightarrow>
          (if status_code r = 200 then
             (case open_wb cfs (''downloaded_'' @ filename) of
                Inl e \<Rightarrow> (False, cfs, st')
              | Inr cfs1 \<Rightarrow>
                  (case write_file cfs1 (''downloaded_'' @ filename) (content r) of
                     Inl e \<Rightarrow> (False, cfs1, st')
                   | Inr cfs2 \<Rightarrow> (True, cfs2, st')))
           else (False, cfs, st')))"

definition client_main :: "'s transport \<Rightarrow> fs \<Rightarrow> 's \<Rightarrow> main_outcome py \<times> 's" where
  "client_main tr cfs st =
     (case test_health tr st of
        (Inl e, st1) \<Rightarrow> (Inl e, st1)
      | (Inr ok, st1) \<Rightarrow>
          (if \<not> ok then (Inr HealthCheckFailed, st1)
           else case test_voice_cloning tr cfs st1 of
                  (Inl e, st2) \<Rightarrow> (Inl e, st2)
                | (Inr passed, st2) \<Rightarrow>
                    (Inr (if passed then CloneTestPassed else CloneTestFailed), st2)))"

subsection \<open>The service as the client's transport\<close>

definition reply_status :: "'a reply \<Rightarrow> int" where
  "reply_status r = (case r of Reply _ \<Rightarrow> 200 | HTTPException c _ \<Rightarrow> c)"

definition to_http :: "(response \<Rightarrow> bytes) \<Rightarrow> fs \<Rightarrow> response \<Rightarrow> http_response" where
  "to_http json s resp =
     (case resp of
        StaticResp (Reply b) \<Rightarrow> \<lparr>status_code = 200, content = b\<rparr>
      | GetAudioResp (Reply fr) \<Rightarrow>
          (case send_file s fr of
             Inr b \<Rightarrow> \<lparr>status_code = 200, content = b\<rparr>
           | Inl e \<Rightarrow> \<lparr>status_code = 500, content = json resp\<rparr>)
      | CloneResp r \<Rightarrow> \<lparr>status_code = reply_status r, content = json resp\<rparr>
      | StaticResp r \<Rightarrow> \<lparr>status_code = reply_status r, content = json resp\<rparr>
      | GetAudioResp r \<Rightarrow> \<lparr>status_code = reply_status r, content = json resp\<rparr>
      | DeleteAudioResp r \<Rightarrow> \<lparr>status_code = reply_status r, content = json resp\<rparr>
      | UnprocessableEntity \<Rightarrow> \<lparr>status_code = 422, content = json resp\<rparr>
      | MethodNotAllowedResp \<Rightarrow> \<lparr>status_code = 405, content = json resp\<rparr>
      | NotFoundResp \<Rightarrow> \<lparr>status_code = 404, content = json resp\<rparr>
      | _ \<Rightarrow> \<lparr>status_code = 200, content = json resp\<rparr>)"

text \<open>A server that is not serving refuses the connection.\<close>

definition serve_http ::
  "audio_backend \<Rightarrow> string \<Rightarrow> string \<Rightarrow> (response \<Rightarrow> bytes) \<Rightarrow>
   ('spk, 'cd, 'cond, 'codes) zonos_server transport" where
  "serve_http aio device tok json srv rq =
     (if srv_phase srv \<noteq> Serving then (Inl ''Connection refused'', srv)
      else case handle_request aio device tok rq srv of
             (resp, srv') \<Rightarrow> (Inr (to_http json (srv_fs srv) resp), srv'))"

text \<open>A client directory holding the example recording, for the witnesses.\<close>

abbreviation ex_client_fs :: fs where
  "ex_client_fs \<equiv> \<lparr>files = [example_audio \<mapsto> [7]], dirs = {''assets''}, disk_full = False\<rparr>"

subsection \<open>Steps of the client against a served state\<close>

lemma serve_http_health:
  "srv_phase srv = Serving \<Longrightarrow>
   serve_http aio device tok json srv \<lparr>rq_method = GET, rq_path = ''/health'', rq_form = None\<rparr> =
     (Inr \<lparr>status_code = 200, content = json (HealthResp (health_check device srv))\<rparr>, srv)"
  by (simp add: serve_http_def handle_request_health to_http_def)

lemma serve_http_clone_voice:
  "srv_phase srv = Serving \<Longrightarrow>
   serve_http aio device tok json srv
     \<lparr>rq_method = POST, rq_path = ''/clone-voice'', rq_form = Some req\<rparr> =
     (Inr \<lparr>status_code = reply_status (fst (clone_voice (srv_model srv) aio tok req (srv_fs srv))),
           content = json (CloneResp (fst (clone_voice (srv_model srv) aio tok req (srv_fs srv))))\<rparr>,
      srv\<lparr>srv_fs := snd (clone_voice (srv_model srv) aio tok req (srv_fs srv))\<rparr>)"
  by (simp add: serve_http_def handle_request_clone_voice to_http_def)

lemma serve_http_audio_file:
  "srv_phase srv = Serving \<Longrightarrow> files (srv_fs srv) (generated_path f) = Some b \<Longrightarrow>
   serve_http aio device tok json srv \<lparr>rq_method = GET, rq_path = ''/audio/'' @ f, rq_form = None\<rparr> =
     (Inr \<lparr>status_code = 200, content = b\<rparr>, srv)"
  unfolding serve_http_def handle_request_audio by (simp add: static_files_def to_http_def)

lemma clone_voice_loaded_status:
  "reply_status (fst (clone_voice (Some zm) aio tok req s)) = 200 \<longleftrightarrow>
   (\<exists>resp. fst (clone_voice (Some zm) aio tok req s) = Reply resp)"
proof (cases "fst (clone_voice (Some zm) aio tok req s)")
  case (HTTPException c d)
  then have "clone_voice (Some zm) aio tok req s =
              (HTTPException c d, snd (clone_voice (Some zm) aio tok req s))"
    by (metis prod.collapse)
  then have "c = 400 \<or> c = 500"
    by (rule clone_voice_loaded_codes)
  with HTTPException show ?thesis by (auto simp: reply_status_def)
qed (simp add: reply_status_def)

lemma clone_voice_Reply_output:
  assumes "clone_voice m aio tok req s = (Reply resp, s')"
  shows "\<exists>zm w b. m = Some zm \<and> ta_encode aio w (ae_sampling_rate zm) = Inr b \<and>
           files s' (output_path tok) = Some b \<and> resp_filename resp = output_filename tok"
  using assms
  unfolding clone_voice_Reply synthesize_Inr torchaudio_save_Inr cleanup_upload_Inr stage_upload_Inr
  by (auto simp: clone_result_def upload_path_ne_output_path not_sym [OF upload_path_ne_output_path])


subsection \<open>Properties\<close>

text \<open>C23.  Run against a booted, serving instance of the service with the
  example recording present, the test script reports success exactly when
  \<^verbatim>\<open>clone_voice\<close> answers the example request with a response, and failure
  otherwise; its health check always passes.\<close>

theorem client_main_verdict:
  assumes "srv_reach aio device srv" and "srv_phase srv = Serving"
    and "files cfs example_audio = Some c"
  shows "fst (client_main (serve_http aio device tok json) cfs srv) =
           Inr (case fst (clone_voice (srv_model srv) aio tok (example_request c) (srv_fs srv)) of
                  Reply _ \<Rightarrow> CloneTestPassed
                | HTTPException _ _ \<Rightarrow> CloneTestFailed)"
proof -
  obtain zm where zm: "srv_model srv = Some zm"
    using srv_reach_inv [OF assms(1)] by (auto simp: srv_inv_def)
  let ?r = "fst (clone_voice (Some zm) aio tok (example_request c) (srv_fs srv))"
  have h: "test_health (serve_http aio device tok json) srv = (Inr True, srv)"
    using assms(2) by (simp add: test_health_def serve_http_health)
  obtain v st2 where V: "test_voice_cloning (serve_http aio device tok json) cfs srv = (v, st2)"
    by fastforce
  have v: "v = Inr (reply_status ?r = 200)"
    using assms(2,3) zm V
    by (simp add: test_voice_cloning_def os_path_exists_def read_file_def serve_http_clone_voice)
  have main: "fst (client_main (serve_http aio device tok json) cfs srv) =
                Inr (if reply_status ?r = 200 then CloneTestPassed else CloneTestFailed)"
    by (simp add: client_main_def h V v)
  show ?thesis
  proof (cases ?r)
    case (Reply resp)
    with main zm show ?thesis by (simp add: reply_status_def)
  next
    case (HTTPException code detail)
    then have "reply_status ?r \<noteq> 200"
      using clone_voice_loaded_status [of zm aio tok "example_request c" "srv_fs srv"] by simp
    with main zm HTTPException show ?thesis by simp
  qed
qed

theorem client_main_verdict_witness:
  "fst (client_main (serve_http ex_audio ''cpu'' ''abc'' (\<lambda>_. [])) ex_client_fs ex_srv) =
     Inr CloneTestPassed"
proof -
  have "fst (clone_voice (Some ex_zonos) ex_audio ''abc'' (example_request [7]) ex_fs) =
          Reply (clone_result ''abc'' (example_request [7]) 2 2)"
    by (simp add: clone_voice_eval example_request_def example_text_def)
  then show ?thesis
    using client_main_verdict [where cfs = ex_client_fs and c = "[7]" and tok = "''abc''"
        and json = "\<lambda>_. []" and srv = ex_srv and aio = ex_audio and device = "''cpu''"]
      ex_srv_reach [of ex_audio "''cpu''"]
    by (simp add: example_audio_def)
qed

text \<open>C24.  Round trip from the service's disk to the client's: after a
  successful \<^verbatim>\<open>clone_voice\<close>, downloading the file named in the response
  through \<^verbatim>\<open>GET /audio/<filename>\<close> succeeds and writes to
  \<^verbatim>\<open>downloaded_<filename>\<close> exactly the bytes torchaudio encoded for the
  synthesized waveform, provided the client can create that file and its
  device is not full.\<close>

theorem clone_download_roundtrip:
  assumes "srv_phase srv = Serving"
    and "clone_voice (srv_model srv) aio tok req (srv_fs srv) = (Reply resp, s')"
    and "open_error (dirs cfs) (''downloaded_'' @ resp_filename resp) = None" and "\<not> disk_full cfs"
  shows "\<exists>zm w b. srv_model srv = Some zm \<and> ta_encode aio w (ae_sampling_rate zm) = Inr b \<and>
           test_audio_download (serve_http aio device tok' json) cfs (srv\<lparr>srv_fs := s'\<rparr>)
             (resp_filename resp) =
           (True, cfs\<lparr>files := (files cfs)(''downloaded_'' @ resp_filename resp \<mapsto> b)\<rparr>,
            srv\<lparr>srv_fs := s'\<rparr>)"
proof -
  obtain zm w b where m: "srv_model srv = Some zm" and enc: "ta_encode aio w (ae_sampling_rate zm) = Inr b"
    and out: "files s' (output_path tok) = Some b" and fn: "resp_filename resp = output_filename tok"
    using clone_voice_Reply_output [OF assms(2)] by blast
  let ?f = "resp_filename resp"
  have gen: "files (srv_fs (srv\<lparr>srv_fs := s'\<rparr>)) (generated_path ?f) = Some b"
    using out fn by (simp add: output_path_generated)
  have get: "serve_http aio device tok' json (srv\<lparr>srv_fs := s'\<rparr>)
               \<lparr>rq_method = GET, rq_path = ''/audio/'' @ ?f, rq_form = None\<rparr> =
             (Inr \<lparr>status_code = 200, content = b\<rparr>, srv\<lparr>srv_fs := s'\<rparr>)"
    using assms(1) gen by (intro serve_http_audio_file) simp_all
  have "open_wb cfs (''downloaded_'' @ ?f) = Inr (cfs\<lparr>files := (files cfs)(''downloaded_'' @ ?f \<mapsto> [])\<rparr>)"
    using assms(3) by (simp add: open_wb_def)
  with get assms(4) have "test_audio_download (serve_http aio device tok' json) cfs (srv\<lparr>srv_fs := s'\<rparr>) ?f =
      (True, cfs\<lparr>files := (files cfs)(''downloaded_'' @ ?f \<mapsto> b)\<rparr>, srv\<lparr>srv_fs := s'\<rparr>)"
    by (simp add: test_audio_download_def write_file_def)
  with m enc show ?thesis by blast
qed

theorem clone_download_roundtrip_witness:
  "\<exists>zm w b. srv_model ex_srv = Some zm \<and> ta_encode ex_audio w (ae_sampling_rate zm) = Inr b \<and>
     test_audio_download (serve_http ex_audio ''cpu'' ''def'' (\<lambda>_. [])) ex_client_fs
       (ex_srv\<lparr>srv_fs := ex_fs\<lparr>files := [output_path ''abc'' \<mapsto> [1, 2]]\<rparr>\<rparr>)
       (resp_filename (clone_result ''abc'' ex_request 2 2)) =
     (True, ex_client_fs\<lparr>files := (files ex_client_fs)
                 (''downloaded_'' @ resp_filename (clone_result ''abc'' ex_request 2 2) \<mapsto> b)\<rparr>,
      ex_srv\<lparr>srv_fs := ex_fs\<lparr>files := [output_path ''abc'' \<mapsto> [1, 2]]\<rparr>\<rparr>)"
proof (rule clone_download_roundtrip)
  show "clone_voice (srv_model ex_srv) ex_audio ''abc'' ex_request (srv_fs ex_srv) =
          (Reply (clone_result ''abc'' ex_request 2 2), ex_fs\<lparr>files := [output_path ''abc'' \<mapsto> [1, 2]]\<rparr>)"
    by (simp add: clone_voice_eval)
qed (simp_all add: clone_result_def output_filename_def open_error_def name_max_def path_max_def Let_def)

text \<open>C25.  When the service cannot be reached, the health request raises
  and \<^verbatim>\<open>main\<close> ends with that exception: the message \<^verbatim>\<open>Health check failed.
  Make sure the API is running.\<close> (line 96) is printed only when the
  service answers with a status other than 200.\<close>

theorem client_unreachable_raises:
  assumes "fst (tr st \<lparr>rq_method = GET, rq_path = ''/health'', rq_form = None\<rparr>) = Inl e"
  shows "fst (client_main tr cfs st) = Inl e"
proof -
  obtain r st1 where T: "tr st \<lparr>rq_method = GET, rq_path = ''/health'', rq_form = None\<rparr> = (r, st1)"
    by fastforce
  with assms show ?thesis by (simp add: client_main_def test_health_def)
qed

theorem client_unreachable_raises_witness:
  "fst (client_main (serve_http ex_audio ''cpu'' ''abc'' (\<lambda>_. [])) ex_client_fs (lifespan_shutdown ex_srv)) =
     Inl ''Connection refused''"
  by (rule client_unreachable_raises) (simp add: serve_http_def lifespan_shutdown_def)

end
