(* ===== verification/Spec2Isabelle.thy ===== *)
theory Spec2Isabelle
  imports Concurrency Client
begin

text \<open>
  Verification development for the Zonos voice-cloning service, a FastAPI
  application in \<^verbatim>\<open>src/main.py\<close>, and its manual test client
  \<^verbatim>\<open>src/test_api.py\<close>.  The service stages an uploaded reference recording
  under \<^verbatim>\<open>uploads/\<close>, derives a speaker embedding from it, runs the Zonos
  model, writes the result under \<^verbatim>\<open>generated/\<close> and serves generated
  files.  The development is a shallow embedding: each function of the
  source is a HOL definition of the same name; exceptions are values of a
  sum type; the file system is an explicit state that every operation takes
  and returns.

  \<^bold>\<open>Theories and what they model.\<close>
  \<^item> \<open>Prelude\<close>: the types \<open>bytes\<close> (8-bit words), \<open>path\<close> and
    \<open>'a py = string + 'a\<close> (\<open>Inl\<close> is a raised exception with its message),
    \<open>py_bind\<close> (statements of one \<^verbatim>\<open>try\<close> block) and Python's true
    division \<open>py_truediv\<close>.
  \<^item> \<open>PyStr\<close>: the built-ins the handler applies, \<^verbatim>\<open>str.strip\<close>,
    \<^verbatim>\<open>str.startswith\<close>, \<^verbatim>\<open>str.split('.')[-1]\<close>, \<^verbatim>\<open>round(x, 2)\<close>.
  \<^item> \<open>FileSystem\<close>: record \<open>fs\<close> (regular files, directories, and whether
    the device is full) and the calls \<^verbatim>\<open>os.path.exists\<close>, \<^verbatim>\<open>os.remove\<close>,
    \<^verbatim>\<open>open(p, 'wb')\<close> (its failures are \<open>open_error\<close>: a NUL character,
    a name over 255 or a path over 4095 bytes, a missing directory on the
    way, a directory at the path), write (\<^verbatim>\<open>ENOSPC\<close> on a full device), read
    and \<^verbatim>\<open>os.makedirs(exist_ok=True)\<close> with the errors they raise.
  \<^item> \<open>ArtifactStore\<close>: the names of lines 96-98 and 140-141
    (\<open>upload_path\<close>, \<open>output_path\<close>), the cleanup of lines 118-119,
    148-149 and 166-167 (\<open>cleanup_upload\<close>), and when \<open>open\<close> fails on a
    staging name.
  \<^item> \<open>Audio\<close>: waveforms, the mono conversion of lines 110-111, \<^verbatim>\<open>wavs[0]\<close>
    and the duration of line 145.
  \<^item> \<open>Collaborators\<close>: the interfaces of torchaudio (\<open>audio_backend\<close>) and of
    the Zonos model (\<open>zonos\<close>), as records of functions; every theorem holds
    for all of their behaviours.  \<^verbatim>\<open>torchaudio.save\<close> encodes, opens and
    writes, and a failed write leaves the empty output file.
  \<^item> \<open>CloneVoice\<close>: \<^verbatim>\<open>clone_voice\<close> (lines 72-173), split into the blocks
    of the source: \<open>validate_clone_request\<close> (80-92), \<open>stage_upload\<close>
    (95-103), \<open>load_reference\<close> (106-120), \<open>synthesize\<close> (123-168) with
    \<open>decode_speech\<close> and \<open>clone_result\<close>, \<open>except_cleanup\<close> for the inner
    handlers and \<open>outer_except\<close> (170-173).
  \<^item> \<open>AudioFiles\<close>: \<^verbatim>\<open>get_audio\<close> (175-185) and \<^verbatim>\<open>delete_audio\<close>
    (187-197), with \<open>send_file\<close>, Starlette's later read of a
    \<^verbatim>\<open>FileResponse\<close>.
  \<^item> \<open>Routing\<close>: the route table of lines 39-51 and the decorators, with the
    methods each route accepts (the documentation routes also take
    \<^verbatim>\<open>HEAD\<close>, the decorated ones only their own method), and a model of
    Starlette's router and of the mounted \<^verbatim>\<open>StaticFiles\<close>.
  \<^item> \<open>Concurrency\<close>: \<^verbatim>\<open>clone_voice\<close> as the atomic segments between its
    \<^verbatim>\<open>await\<close>s (\<open>cv_open\<close>, read, write, \<open>cv_finish\<close>) and the step relation
    \<open>sys_step\<close> interleaving any number of requests, each read and write
    succeeding or failing, with deletions and with the device filling and
    freeing.
  \<^item> \<open>Service\<close>: module import (lines 19, 39-51), the \<^verbatim>\<open>lifespan\<close> startup and
    shutdown (21-37), \<^verbatim>\<open>root\<close>, \<^verbatim>\<open>health_check\<close>, one request through the
    router (\<open>handle_request\<close>) and the life of a server (\<open>srv_reach\<close>).
  \<^item> \<open>Client\<close>: the manual test client (\<open>test_health\<close>,
    \<open>test_voice_cloning\<close>, \<open>test_audio_download\<close>, \<open>client_main\<close>), written
    over an abstract transport \<open>'s transport\<close>, and \<open>serve_http\<close>, the
    transport given by a running server of \<open>Service\<close> (FastAPI's status
    codes and bodies, \<open>to_http\<close>).

  \<^bold>\<open>What is proved.\<close>  C1-C10 and C12 (\<open>CloneVoice\<close>): the handler's effect
  on the file system (only its own output remains when the upload was read
  and written), its result on success and its duration, each error answer
  (validation 400, 503 without a model, 400 on an embedding failure, 500 on
  a synthesis failure), and the two leaks of the staging block: a failed
  read (C7) or a failed write on a full device (C12) is answered 500 and
  leaves the empty staging file.  C11 (\<open>AudioFiles\<close>): deletion is
  idempotent.  C13-C14 (\<open>Routing\<close>): the mount at \<^verbatim>\<open>/audio\<close> shadows both
  audio handlers, and the answer of the router on every method and path.
  C15-C18 (\<open>Concurrency\<close>): the segments run back to back are the handler;
  in every reachable state the staged files are exactly those of requests
  in flight and of failed reads and writes; no two requests share a staging
  file; a leaked file is never removed.  C19-C22 (\<open>Service\<close>): served
  requests are refused only with 400 or 500, \<^verbatim>\<open>/health\<close> reports the model
  loaded, the model and both directories are present in every served state,
  and when module import succeeds.  C23-C25 (\<open>Client\<close>): against a running
  server the test script passes exactly when \<^verbatim>\<open>clone_voice\<close> succeeds; a
  download returns byte for byte what torchaudio encoded (a round trip from
  the server's disk to the client's); an unreachable server makes the
  script raise instead of reporting the failed health check.  C26
  (\<open>ArtifactStore\<close>): the upload extension equals the reference "longest
  dot-free suffix"; \<open>Routing\<close> also proves its router equivalent to the
  reference \<open>dispatch_spec\<close> (first full match, else 405 on a partial match,
  else 404).  C27 (\<open>Audio\<close>): the speaker embedding always receives a
  well-formed one-channel tensor with the input's frame count.  C28-C29
  (\<open>CloneVoice\<close>): a filename with a slash after its last dot, or an
  extension that makes the staging name longer than 255 bytes, is answered
  500 with nothing written.  C30 (\<open>CloneVoice\<close>): temperature and top-p pass
  through unchecked.  C31 (\<open>Service\<close>): over HTTP only
  \<^verbatim>\<open>POST /clone-voice\<close> changes the disk; no request can delete a generated
  file.

  \<^bold>\<open>Modelling choices.\<close>  Strings are \<open>char\<close> lists read as Latin-1 (a
  character above 127 takes two bytes in a file name); floats are real
  numbers (rounding of float32 and float64 is not modelled); \<^verbatim>\<open>uuid.uuid4()\<close>
  is a parameter, a string of length 36 when freshness matters; tensors keep
  their rows and their frame count.  A full device is a flag of the file
  system that the handler does not change; in \<open>sys_step\<close> the environment
  sets and clears it between steps.  No fuel is used: every definition is
  total and structural (the program has no loop of its own; the router's
  walk over the route table and the kernel's walk over the directories of a
  path are structural recursion on lists), and the unbounded behaviour (any
  number of requests) is the inductive relations \<open>sys_reach\<close> and
  \<open>srv_reach\<close>, whose invariants are proved by rule induction.

  \<^bold>\<open>Not modelled.\<close>  The Zonos model and torchaudio themselves (only their
  interfaces; their outputs are arbitrary), the HTTP transport and
  multipart parsing (a request arrives as an \<open>http_request\<close> record),
  permission errors and I/O errors other than a full device, a write that
  fails part way (the file keeps what \<open>open\<close> left), the printed log lines,
  \<^verbatim>\<open>time.sleep\<close>, JSON encoding of the bodies (a parameter \<open>json\<close>), and the
  \<^verbatim>\<open>__main__\<close> blocks, which only start uvicorn or the test script.
\<close>

end
